theory Spec2Isabelle
  imports Complex_Main
begin

section \<open>Numbers, vectors, coordinate systems and mates\<close>

text \<open>
  The script \<^verbatim>\<open>docs-sphinx/_static/iframes/easy-install/generate.py\<close> computes with
  Python floats. They are idealised as real numbers here: the development is about which
  expression each method evaluates, not about rounding. A vector is cadquery's
  \<^verbatim>\<open>Vector\<close>: three coordinates, \<^verbatim>\<open>v - w\<close> taken componentwise and
  \<^verbatim>\<open>abs(v)\<close> the Euclidean length.
\<close>

type_synonym Vector = "real \<times> real \<times> real"

fun vsub :: "Vector \<Rightarrow> Vector \<Rightarrow> Vector" where
  "vsub (x1, y1, z1) (x2, y2, z2) = (x1 - x2, y1 - y2, z1 - z2)"

fun vabs :: "Vector \<Rightarrow> real" where
  "vabs (x, y, z) = sqrt (x * x + y * y + z * z)"

text \<open>
  \<^verbatim>\<open>CoordSystem(origin=..., xDir=..., normal=...)\<close>: the script always gives the origin;
  a direction it leaves out is \<open>None\<close> (the framework's default, which no method of the
  script reads).
\<close>

record CoordSystem =
  origin :: Vector
  xDir :: "Vector option"
  normal :: "Vector option"

text \<open>\<^verbatim>\<open>Mate(component, local_coords)\<close>: a coordinate system attached to a part.\<close>

record 'p Mate =
  component :: 'p
  local_coords :: CoordSystem

section \<open>Solids\<close>

text \<open>
  The cadquery calls of the script, as the terms they build: a method chain
  \<^verbatim>\<open>cadquery.Workplane('XY', origin=o).circle(r).extrude(d)\<close> is
  \<open>Extrude (Circle (Workplane_new ''XY'' o) r) d\<close>. cadquery's default origin is
  \<open>(0, 0, 0)\<close>.
\<close>

datatype Workplane =
    Workplane_new string Vector
  | Circle Workplane real
  | Extrude Workplane real
  | Cut Workplane Workplane
  | Union_obj Workplane Workplane
  | Rotate Workplane Vector Vector real
  | Translate Workplane Vector
  | MoveTo Workplane real real
  | LineTo Workplane real real
  | ThreePointArc Workplane "real \<times> real" "real \<times> real"
  | Close Workplane
  | Spline Workplane "(real \<times> real) list"
  | Rect Workplane real real bool
  | Box Workplane real real real

section \<open>Errors and parameter validation\<close>

datatype error = ParameterError | ValueError | IndexError | FileNotFoundError

definition bind_err :: "error + 'a \<Rightarrow> ('a \<Rightarrow> error + 'b) \<Rightarrow> error + 'b" where
  "bind_err m f = (case m of Inl e \<Rightarrow> Inl e | Inr x \<Rightarrow> f x)"

text \<open>
  Modelled from the spec: the parameter types \<^verbatim>\<open>PositiveFloat\<close>, \<^verbatim>\<open>IntRange\<close> and
  \<^verbatim>\<open>FloatRange\<close> of \<^verbatim>\<open>cqparts.params\<close> are not among the source files. The spec says a
  part's parameter set is "validated only by range/type constraints declared alongside
  each field" and that an "invalid parameter range" is raised. So a \<^verbatim>\<open>PositiveFloat\<close>
  accepts exactly the positive numbers, \<^verbatim>\<open>IntRange(lo, hi, default)\<close> and
  \<^verbatim>\<open>FloatRange(lo, hi, default)\<close> accept exactly the values from \<open>lo\<close> to \<open>hi\<close>, both
  included; an accepted value is stored as it is, any other raises. The type constraint
  is the HOL type of the field.
\<close>

definition PositiveFloat :: "real \<Rightarrow> error + real" where
  "PositiveFloat v = (if 0 < v then Inr v else Inl ParameterError)"

definition IntRange :: "int \<Rightarrow> int \<Rightarrow> int \<Rightarrow> error + int" where
  "IntRange lo hi v = (if lo \<le> v \<and> v \<le> hi then Inr v else Inl ParameterError)"

definition FloatRange :: "real \<Rightarrow> real \<Rightarrow> real \<Rightarrow> error + real" where
  "FloatRange lo hi v = (if lo \<le> v \<and> v \<le> hi then Inr v else Inl ParameterError)"

text \<open>
  A sub-part parameter (\<^verbatim>\<open>HeadType\<close>, \<^verbatim>\<open>DriveType\<close>, \<^verbatim>\<open>ThreadType\<close>) is given as a pair
  of a registered name and the keyword arguments of that sub-part.
\<close>

record subpart =
  sp_name :: string
  sp_args :: "(string \<times> real) list"

section \<open>Wood screw\<close>

record WoodScrew =
  head :: subpart
  drive_ws :: subpart
  thread :: subpart
  neck_diam :: real
  neck_length :: real
  length_ws :: real
  neck_exposed :: real
  bore_diam :: real

definition WoodScrew_defaults :: WoodScrew where
  "WoodScrew_defaults =
     \<lparr> head = \<lparr> sp_name = ''cheese'', sp_args = [(''diameter'', 4), (''height'', 2)] \<rparr>,
       drive_ws = \<lparr> sp_name = ''phillips'',
                    sp_args = [(''diameter'', 3.5), (''depth'', 2.5), (''width'', 0.5)] \<rparr>,
       thread = \<lparr> sp_name = ''triangular'',
                  sp_args = [(''diameter'', 5), (''diameter_core'', 4.3), (''pitch'', 2),
                             (''angle'', 30)] \<rparr>,
       neck_diam = 2,
       neck_length = 40,
       length_ws = 50,
       neck_exposed = 2,
       bore_diam = 6 \<rparr>"

text \<open>
  Modelled from the spec: \<^verbatim>\<open>MaleFastenerPart.initialize_parameters\<close> of
  \<^verbatim>\<open>cqparts_fasteners\<close> is not among the source files. The spec says that "any failure
  (invalid geometry, invalid parameter range) is raised and propagated unhandled by the
  underlying CAD framework". The file documents \<^verbatim>\<open>neck_length\<close> as the "length from base
  of head to end of neck" and \<^verbatim>\<open>length\<close> as the "length from base of head to end of
  thread": a screw whose \<^verbatim>\<open>length\<close> does not exceed its \<^verbatim>\<open>neck_length\<close> has no thread
  to build. That is the invalid geometry, raised as a \<^verbatim>\<open>ValueError\<close>; any other screw is
  left as it is.
\<close>

definition MaleFastenerPart_initialize_parameters :: "WoodScrew \<Rightarrow> error + WoodScrew" where
  "MaleFastenerPart_initialize_parameters self =
     (if length_ws self \<le> neck_length self then Inl ValueError else Inr self)"

text \<open>\<^verbatim>\<open>WoodScrew.initialize_parameters\<close> does nothing but call the inherited hook.\<close>

definition initialize_parameters :: "WoodScrew \<Rightarrow> error + WoodScrew" where
  "initialize_parameters self = MaleFastenerPart_initialize_parameters self"

text \<open>
  \<^verbatim>\<open>WoodScrew(**kwargs)\<close>: the argument is \<open>WoodScrew_defaults\<close> updated at the keywords
  given; every scalar goes through the validator declared with it, and the part that comes
  out goes through \<^verbatim>\<open>initialize_parameters\<close>.
\<close>

definition WoodScrew_new :: "WoodScrew \<Rightarrow> error + WoodScrew" where
  "WoodScrew_new p =
     bind_err (PositiveFloat (neck_diam p)) (\<lambda>nd.
     bind_err (PositiveFloat (neck_length p)) (\<lambda>nl.
     bind_err (PositiveFloat (length_ws p)) (\<lambda>l.
     bind_err (PositiveFloat (neck_exposed p)) (\<lambda>ne.
     bind_err (PositiveFloat (bore_diam p)) (\<lambda>bd.
       initialize_parameters
         \<lparr> head = head p, drive_ws = drive_ws p, thread = thread p,
           neck_diam = nd, neck_length = nl, length_ws = l,
           neck_exposed = ne, bore_diam = bd \<rparr>)))))"

text \<open>
  A method is a function from the receiver to its result and the receiver afterwards.
  Two calls go to \<^verbatim>\<open>cqparts_fasteners\<close>, which is not among the source files, and are
  parameters of the methods that make them. \<^verbatim>\<open>super(WoodScrew, self).make()\<close>
  (\<^verbatim>\<open>MaleFastenerPart.make\<close>) is a method of the receiver itself: the parameter
  \<open>super_make\<close> returns a solid and the receiver afterwards.
  \<^verbatim>\<open>self.thread.make_pilothole_cutter()\<close> is called on the thread: the parameter
  \<open>make_pilothole_cutter\<close> is a function from the thread to the solid it returns.
\<close>

definition WoodScrew_make ::
  "(WoodScrew \<Rightarrow> Workplane \<times> WoodScrew) \<Rightarrow> WoodScrew \<Rightarrow> Workplane \<times> WoodScrew" where
  "WoodScrew_make super_make self =
     (let (screw, self) = super_make self;
          bore = Extrude (Circle (Workplane_new ''XY'' (0, 0, - neck_length self))
                                 (bore_diam self / 2))
                         (neck_length self - neck_exposed self);
          bore = fold (\<lambda>angle bore.
                    let slice_obj =
                      Rotate (Extrude (Circle (Workplane_new ''XY''
                                                 (bore_diam self / 2, 0, - (neck_exposed self + 2)))
                                              (bore_diam self / 3))
                                      (- (neck_length self - neck_exposed self - 4)))
                             (0, 0, 0) (0, 0, 1) angle
                    in Cut bore slice_obj)
                  (map (\<lambda>i. real i * (360 / 3)) [0..<3]) bore;
          screw = Union_obj screw bore
      in (screw, self))"

definition WoodScrew_make_cutter :: "(subpart \<Rightarrow> Workplane) \<Rightarrow> WoodScrew \<Rightarrow> Workplane \<times> WoodScrew" where
  "WoodScrew_make_cutter make_pilothole_cutter self =
     (let cutter = Extrude (Circle (Workplane_new ''XY'' (0, 0, 0)) (bore_diam self / 2))
                           (- neck_length self);
          cutter = Union_obj cutter
                     (Translate (make_pilothole_cutter (thread self)) (0, 0, - length_ws self))
      in (cutter, self))"

definition WoodScrew_make_simple :: "(subpart \<Rightarrow> Workplane) \<Rightarrow> WoodScrew \<Rightarrow> Workplane \<times> WoodScrew" where
  "WoodScrew_make_simple make_pilothole_cutter self =
     WoodScrew_make_cutter make_pilothole_cutter self"

definition mate_threadstart :: "WoodScrew \<Rightarrow> WoodScrew Mate \<times> WoodScrew" where
  "mate_threadstart self =
     (\<lparr> component = self,
        local_coords = \<lparr> origin = (0, 0, - neck_length self), xDir = None, normal = None \<rparr> \<rparr>,
      self)"

section \<open>Anchor\<close>

record Anchor =
  drive_an :: "subpart option"
  diameter :: real
  height :: real
  neck_diameter :: real
  head_diameter :: real
  spline_point_count :: int
  ratio_start :: real
  ratio_end :: real

definition Anchor_defaults :: Anchor where
  "Anchor_defaults =
     \<lparr> drive_an = Some \<lparr> sp_name = ''cross'',
                          sp_args = [(''diameter'', 5), (''width'', 1), (''depth'', 2.5)] \<rparr>,
       diameter = 10,
       height = 5,
       neck_diameter = 2,
       head_diameter = 4,
       spline_point_count = 10,
       ratio_start = 0.99,
       ratio_end = 0.7 \<rparr>"

definition Anchor_new :: "Anchor \<Rightarrow> error + Anchor" where
  "Anchor_new p =
     bind_err (PositiveFloat (diameter p)) (\<lambda>d.
     bind_err (PositiveFloat (height p)) (\<lambda>h.
     bind_err (PositiveFloat (neck_diameter p)) (\<lambda>nd.
     bind_err (PositiveFloat (head_diameter p)) (\<lambda>hd.
     bind_err (IntRange 4 200 (spline_point_count p)) (\<lambda>n.
     bind_err (FloatRange 0.5 0.99 (ratio_start p)) (\<lambda>rs.
     bind_err (FloatRange 0.01 0.8 (ratio_end p)) (\<lambda>re.
       Inr \<lparr> drive_an = drive_an p, diameter = d, height = h, neck_diameter = nd,
             head_diameter = hd, spline_point_count = n, ratio_start = rs,
             ratio_end = re \<rparr>)))))))"

definition wedge_radii :: "Anchor \<Rightarrow> (real \<times> real) \<times> Anchor" where
  "wedge_radii self =
     (((diameter self / 2) * ratio_start self,
       (diameter self / 2) * ratio_end self),
      self)"

text \<open>The core cylinder, which \<^verbatim>\<open>make\<close> starts from and \<^verbatim>\<open>make_simple\<close> returns.\<close>

definition Anchor_make_simple :: "Anchor \<Rightarrow> Workplane \<times> Anchor" where
  "Anchor_make_simple self =
     (Extrude (Circle (Workplane_new ''XY'' (0, 0, 0)) (diameter self / 2)) (- height self),
      self)"

text \<open>Neck slot: eliminates the screw neck's interference.\<close>

definition Anchor_neck_slot :: "Anchor \<Rightarrow> Workplane" where
  "Anchor_neck_slot self =
     Extrude
       (Close
         (ThreePointArc
           (LineTo
             (MoveTo (Workplane_new ''XY'' (0, 0, - ((neck_diameter self + height self) / 2)))
                     0 0)
             (diameter self / 2) 0)
           (0, - diameter self / 2)
           (- diameter self / 2, 0)))
       (neck_diameter self)"

text \<open>
  Head slot: the wedge. \<^verbatim>\<open>angles_radius\<close> runs over \<^verbatim>\<open>range(1, spline_point_count + 1)\<close>
  and \<^verbatim>\<open>points\<close> turns each pair into coordinates.
\<close>

definition angles_radius :: "Anchor \<Rightarrow> (real \<times> real) list" where
  "angles_radius self =
     (let (start_r, end_r) = fst (wedge_radii self) in
      map (\<lambda>i. (real_of_int i * (pi / real_of_int (spline_point_count self)),
                 start_r + ((end_r - start_r) *
                            (real_of_int i / real_of_int (spline_point_count self)))))
          [1..spline_point_count self])"

definition points :: "Anchor \<Rightarrow> (real \<times> real) list" where
  "points self = map (\<lambda>(a, r). (cos a * r, - sin a * r)) (angles_radius self)"

definition Anchor_head_slot :: "Anchor \<Rightarrow> Workplane" where
  "Anchor_head_slot self =
     (let (start_r, end_r) = fst (wedge_radii self) in
      Extrude
        (Close
          (Spline
            (MoveTo (Workplane_new ''XY'' (0, 0, - ((head_diameter self + height self) / 2)))
                    start_r 0)
            (points self)))
        (head_diameter self))"

text \<open>Access port: removes a quadrant to allow the screw's head through.\<close>

definition Anchor_access_port :: "Anchor \<Rightarrow> Workplane" where
  "Anchor_access_port self =
     Extrude
       (Rect (Workplane_new ''XY'' (0, 0, - (height self - head_diameter self) / 2))
             (diameter self / 2) (diameter self / 2) False)
       (- height self)"

text \<open>
  \<^verbatim>\<open>self.drive.apply(obj)\<close> is a method of a \<^verbatim>\<open>cqparts_fasteners\<close> screw drive, not among
  the source files: the parameter \<open>drive_apply\<close>, a function of the drive and the solid it
  is applied to. A missing drive (\<^verbatim>\<open>if self.drive\<close>) is \<open>None\<close>.
\<close>

definition Anchor_make :: "(subpart \<Rightarrow> Workplane \<Rightarrow> Workplane) \<Rightarrow> Anchor \<Rightarrow> Workplane \<times> Anchor" where
  "Anchor_make drive_apply self =
     (let obj = Extrude (Circle (Workplane_new ''XY'' (0, 0, 0)) (diameter self / 2))
                        (- height self);
          obj = Cut obj (Anchor_neck_slot self);
          obj = Cut obj (Anchor_head_slot self);
          obj = Cut obj (Anchor_access_port self);
          obj = (case drive_an self of Some d \<Rightarrow> drive_apply d obj | None \<Rightarrow> obj)
      in (obj, self))"

definition Anchor_make_cutter :: "Anchor \<Rightarrow> Workplane \<times> Anchor" where
  "Anchor_make_cutter self =
     (Extrude (Circle (Workplane_new ''XY'' (0, 0, - height self)) (diameter self / 2))
              (height self + 1000),
      self)"

definition mate_screwhead :: "Anchor \<Rightarrow> Anchor Mate \<times> Anchor" where
  "mate_screwhead self =
     (let (start_r, end_r) = fst (wedge_radii self) in
      (\<lparr> component = self,
         local_coords = \<lparr> origin = (0, - ((start_r + end_r) / 2), - height self / 2),
                          xDir = Some (1, 0, 0), normal = Some (0, 1, 0) \<rparr> \<rparr>,
       self))"

definition mate_center :: "Anchor \<Rightarrow> Anchor Mate \<times> Anchor" where
  "mate_center self =
     (\<lparr> component = self,
        local_coords = \<lparr> origin = (0, 0, - height self / 2), xDir = None, normal = None \<rparr> \<rparr>,
      self)"

definition mate_base :: "Anchor \<Rightarrow> Anchor Mate \<times> Anchor" where
  "mate_base self =
     (\<lparr> component = self,
        local_coords = \<lparr> origin = (0, 0, - height self), xDir = None, normal = None \<rparr> \<rparr>,
      self)"

section \<open>Fastener\<close>

text \<open>
  An effect of the \<^verbatim>\<open>VectorEvaluator\<close>: the part the vector passes through and the two
  points where it enters and leaves it. The evaluation \<^verbatim>\<open>self.evaluator.eval\<close> is a list
  of effects. A part is named by a reference \<open>'p\<close>.
\<close>

record 'p VectorEffect =
  part :: 'p
  start_point :: Vector
  end_point :: Vector

text \<open>Python's \<^verbatim>\<open>xs[i]\<close>: a negative index counts from the end, out of range raises.\<close>

definition py_index :: "'a list \<Rightarrow> int \<Rightarrow> error + 'a" where
  "py_index xs i =
     (let n = int (length xs); j = (if i < 0 then n + i else i)
      in if 0 \<le> j \<and> j < n then Inr (xs ! nat j) else Inl IndexError)"

record Components =
  anchor :: Anchor
  screw :: WoodScrew

text \<open>
  \<^verbatim>\<open>get_components\<close> reads the slack from \<^verbatim>\<open>anchor.mate_base\<close> (into a variable named
  \<^verbatim>\<open>v_rel_screwhead\<close>; its comment speaks of the screw head's base), and so does the
  model.
\<close>

definition get_components :: "'p VectorEffect list \<Rightarrow> error + Components" where
  "get_components eval =
     bind_err (Anchor_new Anchor_defaults) (\<lambda>anchor.
       let v_rel_center = origin (local_coords (fst (mate_center anchor)));
           v_rel_screwhead = origin (local_coords (fst (mate_base anchor)));
           anchor_slack = vabs (vsub v_rel_screwhead v_rel_center)
       in
     bind_err (py_index eval (- 1)) (\<lambda>last_effect.
     bind_err (py_index eval 0) (\<lambda>first_effect.
       let effect_length = vabs (vsub (start_point last_effect) (start_point first_effect));
           neck_length' = effect_length - anchor_slack;
           thread_maxlength = vabs (vsub (end_point last_effect) (start_point last_effect));
           thread_length = thread_maxlength * 0.8
       in
     bind_err (WoodScrew_new (WoodScrew_defaults
                 \<lparr> neck_length := neck_length',
                   length_ws := neck_length' + thread_length \<rparr>)) (\<lambda>screw.
       Inr \<lparr> anchor = anchor, screw = screw \<rparr>))))"

text \<open>
  The parts an assembly holds are mutable objects: \<^verbatim>\<open>apply_alterations\<close> assigns to
  \<^verbatim>\<open>effect.part.local_obj\<close>, and two effects may hold the same part. The store maps a
  part's reference to its current solid and its placement.
\<close>

record PartState =
  local_obj :: Workplane
  world_coords :: CoordSystem

type_synonym 'p store = "'p \<Rightarrow> PartState"

text \<open>
  \<^verbatim>\<open>CoordSystem.__sub__\<close> (a placement relative to another) and \<^verbatim>\<open>CoordSystem.__add__\<close>
  (a solid moved by a placement) belong to \<^verbatim>\<open>cqparts.utils\<close>; they are the parameters
  \<open>cs_sub\<close> and \<open>cs_add\<close>. One step of either loop of \<^verbatim>\<open>apply_alterations\<close>:
  \<^verbatim>\<open>coordsys = wc - effect.part.world_coords\<close>,
  \<^verbatim>\<open>effect.part.local_obj = effect.part.local_obj.cut(coordsys + cutter)\<close>.
\<close>

definition cut_from_part ::
  "(CoordSystem \<Rightarrow> CoordSystem \<Rightarrow> CoordSystem) \<Rightarrow> (CoordSystem \<Rightarrow> Workplane \<Rightarrow> Workplane) \<Rightarrow>
   CoordSystem \<Rightarrow> Workplane \<Rightarrow> 'p VectorEffect \<Rightarrow> 'p store \<Rightarrow> 'p store" where
  "cut_from_part cs_sub cs_add wc cutter effect st =
     (let coordsys = cs_sub wc (world_coords (st (part effect)))
      in st (part effect :=
               (st (part effect)) \<lparr> local_obj :=
                  Cut (local_obj (st (part effect))) (cs_add coordsys cutter) \<rparr>))"

definition apply_alterations ::
  "(CoordSystem \<Rightarrow> CoordSystem \<Rightarrow> CoordSystem) \<Rightarrow> (CoordSystem \<Rightarrow> Workplane \<Rightarrow> Workplane) \<Rightarrow>
   (subpart \<Rightarrow> Workplane) \<Rightarrow> WoodScrew \<Rightarrow> CoordSystem \<Rightarrow> Anchor \<Rightarrow> CoordSystem \<Rightarrow>
   'p VectorEffect list \<Rightarrow> 'p store \<Rightarrow> 'p store" where
  "apply_alterations cs_sub cs_add make_pilothole_cutter screw' screw_wc anchor' anchor_wc eval st =
     (let screw_cutter = fst (WoodScrew_make_cutter make_pilothole_cutter screw');
          anchor_cutter = fst (Anchor_make_cutter anchor');
          st = fold (cut_from_part cs_sub cs_add screw_wc screw_cutter) eval st;
          st = fold (cut_from_part cs_sub cs_add anchor_wc anchor_cutter) (butlast eval) st
      in st)"

section \<open>Wood panel\<close>

record WoodPanel =
  thickness :: real
  width :: real
  length_wp :: real

definition WoodPanel_defaults :: WoodPanel where
  "WoodPanel_defaults = \<lparr> thickness = 15, width = 100, length_wp = 100 \<rparr>"

definition WoodPanel_new :: "WoodPanel \<Rightarrow> error + WoodPanel" where
  "WoodPanel_new p =
     bind_err (PositiveFloat (thickness p)) (\<lambda>t.
     bind_err (PositiveFloat (width p)) (\<lambda>w.
     bind_err (PositiveFloat (length_wp p)) (\<lambda>l.
       Inr \<lparr> thickness = t, width = w, length_wp = l \<rparr>)))"

section \<open>The script: catalogue, export and display\<close>

text \<open>
  What the script hands to the catalogue, the exporter and the display: a wood screw, an
  anchor, the assembly \<^verbatim>\<open>_Together()\<close>, or the assembly \<^verbatim>\<open>ConnectedPlanks()\<close> with the
  \<^verbatim>\<open>world_coords\<close> assigned to it.
\<close>

datatype component =
    WoodScrew_c WoodScrew
  | Anchor_c Anchor
  | Together_c
  | ConnectedPlanks_c CoordSystem

datatype pyval = PyStr string | PyInt int

text \<open>A row of the tables \<^verbatim>\<open>screws\<close> and \<^verbatim>\<open>anchors\<close>, and an entry of the catalogue.\<close>

record 'p item =
  item_id :: string
  obj_params :: 'p
  item_criteria :: "(string \<times> pyval) list"

record entry =
  entry_id :: string
  entry_criteria :: "(string \<times> pyval) list"
  entry_obj :: component

definition screws :: "WoodScrew item list" where
  "screws =
     [ \<lparr> item_id = ''screw_30'',
         obj_params = WoodScrew_defaults \<lparr> neck_exposed := 5, length_ws := 40, neck_length := 30 \<rparr>,
         item_criteria = [(''type'', PyStr ''screw''), (''thread_length'', PyInt 10),
                          (''compatible_anchor'', PyStr ''anchor_10'')] \<rparr>,
       \<lparr> item_id = ''screw_50'',
         obj_params = WoodScrew_defaults \<lparr> neck_exposed := 6, length_ws := 65, neck_length := 50 \<rparr>,
         item_criteria = [(''type'', PyStr ''screw''), (''thread_length'', PyInt 15),
                          (''compatible_anchor'', PyStr ''anchor_15'')] \<rparr> ]"

definition anchors :: "Anchor item list" where
  "anchors =
     [ \<lparr> item_id = ''anchor_10'',
         obj_params = Anchor_defaults \<lparr> diameter := 10, height := 7 \<rparr>,
         item_criteria = [(''type'', PyStr ''anchor'')] \<rparr>,
       \<lparr> item_id = ''anchor_15'',
         obj_params = Anchor_defaults \<lparr> diameter := 15, height := 10 \<rparr>,
         item_criteria = [(''type'', PyStr ''anchor'')] \<rparr> ]"

text \<open>
  The world outside the script: the catalogue files on disk, each with its entries, and
  the trace of what the script did to it, in order: the catalogue file it created or
  opened, the entries it added, the file it removed, and the calls it made to the exporter
  and the display.
\<close>

datatype boundary_call =
    Export string string component
  | Display component

datatype event =
    Catalogue_created string
  | Catalogue_opened string
  | Catalogue_added string entry
  | Unlinked string
  | Boundary boundary_call

record world =
  files :: "string \<rightharpoonup> entry list"
  trace :: "event list"

text \<open>The calls to the exporter and the display that a trace holds.\<close>

fun calls_of :: "event list \<Rightarrow> boundary_call list" where
  "calls_of [] = []"
| "calls_of (Boundary c # es) = c # calls_of es"
| "calls_of (e # es) = calls_of es"

definition calls :: "world \<Rightarrow> boundary_call list" where
  "calls w = calls_of (trace w)"

text \<open>
  Modelled from the spec: \<^verbatim>\<open>JSONCatalogue\<close> of \<^verbatim>\<open>cqparts.catalogue\<close> is not among the
  source files. By the spec a catalogue is "a keyed store of pre-built part instances plus
  matching criteria", an entry is an "(id, criteria mapping, serialized part) triple", and
  the script's catalogue is "one temporary catalogue file created and deleted within the
  same script execution". So \<^verbatim>\<open>JSONCatalogue(filename)\<close> creates the file when there is
  none and opens it otherwise, and \<^verbatim>\<open>catalogue.add(id, criteria, obj)\<close> appends one entry
  to it.
\<close>

definition entries_of :: "world \<Rightarrow> string \<Rightarrow> entry list" where
  "entries_of w f = (case files w f of None \<Rightarrow> [] | Some es \<Rightarrow> es)"

definition JSONCatalogue_new :: "string \<Rightarrow> world \<Rightarrow> world" where
  "JSONCatalogue_new f w =
     (case files w f of
        None \<Rightarrow> w \<lparr> files := (files w) (f \<mapsto> []), trace := trace w @ [Catalogue_created f] \<rparr>
      | Some es \<Rightarrow> w \<lparr> trace := trace w @ [Catalogue_opened f] \<rparr>)"

definition catalogue_add :: "string \<Rightarrow> entry \<Rightarrow> world \<Rightarrow> world" where
  "catalogue_add f e w =
     w \<lparr> files := (files w) (f \<mapsto> entries_of w f @ [e]),
         trace := trace w @ [Catalogue_added f e] \<rparr>"

text \<open>\<^verbatim>\<open>os.unlink(filename)\<close> removes the file, and raises when there is none.\<close>

definition os_unlink :: "string \<Rightarrow> world \<Rightarrow> error + world" where
  "os_unlink f w =
     (case files w f of
        None \<Rightarrow> Inl FileNotFoundError
      | Some es \<Rightarrow> Inr (w \<lparr> files := (files w) (f := None), trace := trace w @ [Unlinked f] \<rparr>))"

text \<open>
  The two loops \<^verbatim>\<open>for screw in screws\<close> and \<^verbatim>\<open>for anchor in anchors\<close>: build the part from
  the row's parameters, add it to the catalogue. Nothing catches an error of the
  constructor.
\<close>

fun add_screws :: "string \<Rightarrow> WoodScrew item list \<Rightarrow> world \<Rightarrow> error + world" where
  "add_screws f [] w = Inr w"
| "add_screws f (row # rest) w =
     bind_err (WoodScrew_new (obj_params row)) (\<lambda>obj.
       add_screws f rest
         (catalogue_add f \<lparr> entry_id = item_id row, entry_criteria = item_criteria row,
                            entry_obj = WoodScrew_c obj \<rparr> w))"

fun add_anchors :: "string \<Rightarrow> Anchor item list \<Rightarrow> world \<Rightarrow> error + world" where
  "add_anchors f [] w = Inr w"
| "add_anchors f (row # rest) w =
     bind_err (Anchor_new (obj_params row)) (\<lambda>obj.
       add_anchors f rest
         (catalogue_add f \<lparr> entry_id = item_id row, entry_criteria = item_criteria row,
                            entry_obj = Anchor_c obj \<rparr> w))"

text \<open>
  The catalogue section up to the last \<^verbatim>\<open>catalogue.add\<close>, for any two tables and the file
  name \<^verbatim>\<open>tempfile.mktemp()\<close> returned; then the same followed by \<^verbatim>\<open>os.unlink\<close>.
\<close>

definition build_catalogue ::
  "WoodScrew item list \<Rightarrow> Anchor item list \<Rightarrow> string \<Rightarrow> world \<Rightarrow> error + world" where
  "build_catalogue ss as catalogue_filename w =
     bind_err (add_screws catalogue_filename ss (JSONCatalogue_new catalogue_filename w))
       (add_anchors catalogue_filename as)"

definition catalogue_section ::
  "WoodScrew item list \<Rightarrow> Anchor item list \<Rightarrow> string \<Rightarrow> world \<Rightarrow> error + world" where
  "catalogue_section ss as catalogue_filename w =
     bind_err (build_catalogue ss as catalogue_filename w) (os_unlink catalogue_filename)"

text \<open>
  The export / display section: the calls it makes, in order. \<open>rnd\<close> is the value of
  \<^verbatim>\<open>CoordSystem.random(span=20)\<close>. The script appends them to the trace.
\<close>

definition export_display :: "CoordSystem \<Rightarrow> string \<Rightarrow> error + boundary_call list" where
  "export_display rnd env_name =
     bind_err (WoodScrew_new WoodScrew_defaults) (\<lambda>screw.
     bind_err (Anchor_new Anchor_defaults) (\<lambda>anchor.
       let together = Together_c in
       if env_name = ''cmdline'' then
         Inr [Export ''gltf'' ''screw.gltf'' (WoodScrew_c screw),
              Export ''gltf'' ''anchor.gltf'' (Anchor_c anchor),
              Export ''gltf'' ''together.gltf'' together]
       else if env_name = ''freecad'' then
         Inr [Display (ConnectedPlanks_c rnd)]
       else Inr []))"

definition script_with ::
  "WoodScrew item list \<Rightarrow> Anchor item list \<Rightarrow> string \<Rightarrow> CoordSystem \<Rightarrow> string \<Rightarrow> world \<Rightarrow>
   error + world" where
  "script_with ss as catalogue_filename rnd env_name w =
     bind_err (catalogue_section ss as catalogue_filename w) (\<lambda>w.
     bind_err (export_display rnd env_name) (\<lambda>cs.
       Inr (w \<lparr> trace := trace w @ map Boundary cs \<rparr>)))"

definition script :: "string \<Rightarrow> CoordSystem \<Rightarrow> string \<Rightarrow> world \<Rightarrow> error + world" where
  "script = script_with screws anchors"

text \<open>The entries the two loops add, in the order they add them.\<close>

definition catalogue_entries :: "entry list" where
  "catalogue_entries =
     map (\<lambda>r. \<lparr> entry_id = item_id r, entry_criteria = item_criteria r,
                 entry_obj = WoodScrew_c (obj_params r) \<rparr>) screws @
     map (\<lambda>r. \<lparr> entry_id = item_id r, entry_criteria = item_criteria r,
                 entry_obj = Anchor_c (obj_params r) \<rparr>) anchors"

definition is_export :: "boundary_call \<Rightarrow> bool" where
  "is_export c = (case c of Export fmt name obj \<Rightarrow> True | Display obj \<Rightarrow> False)"

definition is_display :: "boundary_call \<Rightarrow> bool" where
  "is_display c = (case c of Export fmt name obj \<Rightarrow> False | Display obj \<Rightarrow> True)"

section \<open>The classes of the file\<close>

text \<open>
  What each class statement of the file declares in its own body: the base class, the
  names bound to a parameter type, the other class attributes, the methods and
  properties defined by \<^verbatim>\<open>def\<close>, and the nested classes.
\<close>

record class_decl =
  class_name :: string
  base :: string
  parameters :: "string list"
  attributes :: "string list"
  methods :: "string list"
  nested :: "string list"

definition WoodScrew_decl :: class_decl where
  "WoodScrew_decl =
     \<lparr> class_name = ''WoodScrew'', base = ''MaleFastenerPart'',
       parameters = [''head'', ''drive'', ''thread'', ''neck_diam'', ''neck_length'', ''length'',
                     ''neck_exposed'', ''bore_diam''],
       attributes = [''_render''],
       methods = [''initialize_parameters'', ''make'', ''make_cutter'', ''make_simple'',
                  ''mate_threadstart''],
       nested = [] \<rparr>"

definition Anchor_decl :: class_decl where
  "Anchor_decl =
     \<lparr> class_name = ''Anchor'', base = ''cqparts.Part'',
       parameters = [''drive'', ''diameter'', ''height'', ''neck_diameter'', ''head_diameter'',
                     ''spline_point_count'', ''ratio_start'', ''ratio_end''],
       attributes = [''_render''],
       methods = [''wedge_radii'', ''make'', ''make_simple'', ''make_cutter'', ''mate_screwhead'',
                  ''mate_center'', ''mate_base''],
       nested = [] \<rparr>"

definition Together_decl :: class_decl where
  "Together_decl =
     \<lparr> class_name = ''_Together'', base = ''cqparts.Assembly'',
       parameters = [], attributes = [],
       methods = [''make_components'', ''make_constraints''],
       nested = [] \<rparr>"

definition EasyInstallFastener_decl :: class_decl where
  "EasyInstallFastener_decl =
     \<lparr> class_name = ''EasyInstallFastener'', base = ''Fastener'',
       parameters = [], attributes = [''Evaluator''],
       methods = [],
       nested = [''Selector'', ''Applicator''] \<rparr>"

definition Selector_decl :: class_decl where
  "Selector_decl =
     \<lparr> class_name = ''EasyInstallFastener.Selector'', base = ''Selector'',
       parameters = [], attributes = [],
       methods = [''get_components'', ''get_constraints''],
       nested = [] \<rparr>"

definition Applicator_decl :: class_decl where
  "Applicator_decl =
     \<lparr> class_name = ''EasyInstallFastener.Applicator'', base = ''Applicator'',
       parameters = [], attributes = [],
       methods = [''apply_alterations''],
       nested = [] \<rparr>"

definition WoodPanel_decl :: class_decl where
  "WoodPanel_decl =
     \<lparr> class_name = ''WoodPanel'', base = ''cqparts.Part'',
       parameters = [''thickness'', ''width'', ''length''],
       attributes = [],
       methods = [''make'', ''mate_end'', ''get_mate_edge''],
       nested = [] \<rparr>"

definition ConnectedPlanks_decl :: class_decl where
  "ConnectedPlanks_decl =
     \<lparr> class_name = ''ConnectedPlanks'', base = ''cqparts.Assembly'',
       parameters = [], attributes = [],
       methods = [''make_components'', ''make_constraints''],
       nested = [] \<rparr>"

text \<open>
  A class is a parameter bag with a \<^verbatim>\<open>make()\<close> of its own when its body declares a
  parameter and defines a method named \<^verbatim>\<open>make\<close>.
\<close>

definition parameter_bag_with_make :: "class_decl \<Rightarrow> bool" where
  "parameter_bag_with_make c = (parameters c \<noteq> [] \<and> ''make'' \<in> set (methods c))"

section \<open>Example inputs\<close>

text \<open>
  Concrete inputs at which the theorems below are instantiated: an evaluation through two
  parts stacked along the z axis, an evaluation through one part, placements that differ
  by a translation, and a store of panels.
\<close>

definition example_evaluation :: "nat VectorEffect list" where
  "example_evaluation =
     [ \<lparr> part = 0, start_point = (0, 0, 0), end_point = (0, 0, 15) \<rparr>,
       \<lparr> part = 1, start_point = (0, 0, 15), end_point = (0, 0, 25) \<rparr> ]"

definition one_effect_evaluation :: "nat VectorEffect list" where
  "one_effect_evaluation =
     [ \<lparr> part = 0, start_point = (0, 0, 0), end_point = (0, 0, 15) \<rparr> ]"

definition example_cs_sub :: "CoordSystem \<Rightarrow> CoordSystem \<Rightarrow> CoordSystem" where
  "example_cs_sub a b = \<lparr> origin = vsub (origin a) (origin b), xDir = None, normal = None \<rparr>"

definition example_cs_add :: "CoordSystem \<Rightarrow> Workplane \<Rightarrow> Workplane" where
  "example_cs_add cs obj = Translate obj (origin cs)"

definition example_pilothole :: "subpart \<Rightarrow> Workplane" where
  "example_pilothole t = Extrude (Circle (Workplane_new ''XY'' (0, 0, 0)) 2) 10"

definition example_super_make :: "WoodScrew \<Rightarrow> Workplane \<times> WoodScrew" where
  "example_super_make self =
     (Extrude (Circle (Workplane_new ''XY'' (0, 0, 0)) (neck_diam self / 2)) (- length_ws self),
      self)"

definition example_placement :: CoordSystem where
  "example_placement = \<lparr> origin = (0, 0, 0), xDir = None, normal = None \<rparr>"

definition example_store :: "nat store" where
  "example_store p =
     \<lparr> local_obj = Box (Workplane_new ''XY'' (0, 0, 0)) 40 30 15,
       world_coords = \<lparr> origin = (0, 0, real p), xDir = None, normal = None \<rparr> \<rparr>"

section \<open>Parameter validation\<close>

lemma WoodScrew_new_eq:
  "WoodScrew_new p =
     (if 0 < neck_diam p \<and> 0 < neck_length p \<and> 0 < length_ws p \<and> 0 < neck_exposed p \<and>
         0 < bore_diam p
      then if length_ws p \<le> neck_length p then Inl ValueError else Inr p
      else Inl ParameterError)"
  by (simp add: WoodScrew_new_def bind_err_def PositiveFloat_def initialize_parameters_def
      MaleFastenerPart_initialize_parameters_def)

lemma Anchor_new_eq:
  "Anchor_new p =
     (if 0 < diameter p \<and> 0 < height p \<and> 0 < neck_diameter p \<and> 0 < head_diameter p \<and>
         4 \<le> spline_point_count p \<and> spline_point_count p \<le> 200 \<and>
         0.5 \<le> ratio_start p \<and> ratio_start p \<le> 0.99 \<and>
         0.01 \<le> ratio_end p \<and> ratio_end p \<le> 0.8
      then Inr p else Inl ParameterError)"
  by (simp add: Anchor_new_def bind_err_def PositiveFloat_def IntRange_def FloatRange_def)

lemma WoodPanel_new_eq:
  "WoodPanel_new p =
     (if 0 < thickness p \<and> 0 < width p \<and> 0 < length_wp p then Inr p else Inl ParameterError)"
  by (simp add: WoodPanel_new_def bind_err_def PositiveFloat_def)

lemma WoodScrew_new_defaults: "WoodScrew_new WoodScrew_defaults = Inr WoodScrew_defaults"
  by (simp add: WoodScrew_new_eq WoodScrew_defaults_def)

lemma Anchor_new_defaults: "Anchor_new Anchor_defaults = Inr Anchor_defaults"
  by (simp add: Anchor_new_eq Anchor_defaults_def)

lemma WoodScrew_new_error:
  "WoodScrew_new p = Inl e \<Longrightarrow> e = ParameterError \<or> e = ValueError"
  by (auto simp add: WoodScrew_new_eq split: if_splits)

lemma Anchor_new_error: "Anchor_new p = Inl e \<Longrightarrow> e = ParameterError"
  by (simp add: Anchor_new_eq split: if_splits)

text \<open>A loop over a table with a row that raises ends with an error, whatever the rows after it.\<close>

lemma add_screws_raises:
  "\<exists>x\<in>set ss. \<exists>e. WoodScrew_new (obj_params x) = Inl e \<Longrightarrow>
   add_screws f ss w = Inl ParameterError \<or> add_screws f ss w = Inl ValueError"
proof (induction ss arbitrary: w)
  case Nil
  then show ?case by simp
next
  case (Cons x xs)
  show ?case
  proof (cases "WoodScrew_new (obj_params x)")
    case (Inl e)
    with WoodScrew_new_error [OF Inl] show ?thesis
      by (auto simp add: bind_err_def)
  next
    case (Inr obj)
    with Cons.prems have "\<exists>x\<in>set xs. \<exists>e. WoodScrew_new (obj_params x) = Inl e"
      by auto
    from Cons.IH [OF this] Inr show ?thesis by (simp add: bind_err_def)
  qed
qed

lemma add_screws_error:
  "add_screws f ss w = Inl e \<Longrightarrow> e = ParameterError \<or> e = ValueError"
proof (induction ss arbitrary: w)
  case Nil
  then show ?case by simp
next
  case (Cons x xs)
  show ?case
  proof (cases "WoodScrew_new (obj_params x)")
    case (Inl e')
    with WoodScrew_new_error [OF Inl] Cons.prems show ?thesis
      by (auto simp add: bind_err_def)
  next
    case (Inr obj)
    with Cons.prems Cons.IH show ?thesis by (simp add: bind_err_def)
  qed
qed

lemma add_anchors_raises:
  "\<exists>x\<in>set as. \<exists>e. Anchor_new (obj_params x) = Inl e \<Longrightarrow>
   add_anchors f as w = Inl ParameterError"
proof (induction as arbitrary: w)
  case Nil
  then show ?case by simp
next
  case (Cons x xs)
  show ?case
  proof (cases "Anchor_new (obj_params x)")
    case (Inl e)
    with Anchor_new_error [OF Inl] show ?thesis by (simp add: bind_err_def)
  next
    case (Inr obj)
    with Cons.prems have "\<exists>x\<in>set xs. \<exists>e. Anchor_new (obj_params x) = Inl e"
      by auto
    from Cons.IH [OF this] Inr show ?thesis by (simp add: bind_err_def)
  qed
qed

lemma build_catalogue_raises:
  assumes "(\<exists>x\<in>set ss. \<exists>e. WoodScrew_new (obj_params x) = Inl e) \<or>
           (\<exists>x\<in>set as. \<exists>e. Anchor_new (obj_params x) = Inl e)"
  shows "build_catalogue ss as f w = Inl ParameterError \<or>
         build_catalogue ss as f w = Inl ValueError"
proof (cases "add_screws f ss (JSONCatalogue_new f w)")
  case (Inl e)
  with add_screws_error [OF Inl] show ?thesis
    by (auto simp add: build_catalogue_def bind_err_def)
next
  case (Inr w')
  then have "\<not> (\<exists>x\<in>set ss. \<exists>e. WoodScrew_new (obj_params x) = Inl e)"
    using add_screws_raises [of ss f "JSONCatalogue_new f w"] by auto
  with assms have "\<exists>x\<in>set as. \<exists>e. Anchor_new (obj_params x) = Inl e"
    by blast
  from add_anchors_raises [OF this] Inr show ?thesis
    by (simp add: build_catalogue_def bind_err_def)
qed

text \<open>
  C5, as the claim states it, fails in its last part: the declared constraints are not
  the only validation. The wood screw with \<open>length = 40\<close> and every other parameter at
  its default, \<open>neck_length = 40\<close> among them, has each scalar inside its declared
  constraint, and its construction raises all the same, in \<^verbatim>\<open>initialize_parameters\<close>.
\<close>

theorem screw_in_range_rejected:
  "0 < neck_diam (WoodScrew_defaults \<lparr> length_ws := 40 \<rparr>) \<and>
   0 < neck_length (WoodScrew_defaults \<lparr> length_ws := 40 \<rparr>) \<and>
   0 < length_ws (WoodScrew_defaults \<lparr> length_ws := 40 \<rparr>) \<and>
   0 < neck_exposed (WoodScrew_defaults \<lparr> length_ws := 40 \<rparr>) \<and>
   0 < bore_diam (WoodScrew_defaults \<lparr> length_ws := 40 \<rparr>) \<and>
   WoodScrew_new (WoodScrew_defaults \<lparr> length_ws := 40 \<rparr>) = Inl ValueError"
  by (simp add: WoodScrew_new_eq WoodScrew_defaults_def)

text \<open>
  C5, amended. Constructing a part with a scalar outside its declared range (an anchor
  with \<open>spline_point_count\<close> outside 4..200 or \<open>ratio_start\<close> outside 0.5..0.99, a wood
  screw with a negative \<open>neck_length\<close>) raises \<open>ParameterError\<close>. An anchor or a wood
  panel whose scalars are positive and inside their ranges is constructed with the values
  as given. A wood screw whose scalars are positive is handed to
  \<^verbatim>\<open>initialize_parameters\<close>, which raises \<open>ValueError\<close> when \<open>length\<close> does not exceed
  \<open>neck_length\<close> and otherwise leaves the values as given. The script has no handler:
  when the constructor raises on a row of either table, the whole script ends with a
  \<open>ParameterError\<close> or a \<open>ValueError\<close>, whatever the file name, the environment and the
  world it runs in. Nothing is said of a scalar that is exactly 0, and the sub-part
  parameters (head, drive, thread) are passed on as given.
\<close>

theorem invalid_parameter_raises:
  "(neck_diam p < 0 \<or> neck_length p < 0 \<or> length_ws p < 0 \<or> neck_exposed p < 0 \<or>
    bore_diam p < 0 \<longrightarrow> WoodScrew_new p = Inl ParameterError) \<and>
   (0 < neck_diam p \<and> 0 < neck_length p \<and> 0 < length_ws p \<and> 0 < neck_exposed p \<and>
    0 < bore_diam p \<longrightarrow>
      WoodScrew_new p = (if length_ws p \<le> neck_length p then Inl ValueError else Inr p)) \<and>
   (diameter q < 0 \<or> height q < 0 \<or> neck_diameter q < 0 \<or> head_diameter q < 0 \<or>
    spline_point_count q < 4 \<or> 200 < spline_point_count q \<or>
    ratio_start q < 0.5 \<or> 0.99 < ratio_start q \<or>
    ratio_end q < 0.01 \<or> 0.8 < ratio_end q \<longrightarrow> Anchor_new q = Inl ParameterError) \<and>
   (0 < diameter q \<and> 0 < height q \<and> 0 < neck_diameter q \<and> 0 < head_diameter q \<and>
    4 \<le> spline_point_count q \<and> spline_point_count q \<le> 200 \<and>
    0.5 \<le> ratio_start q \<and> ratio_start q \<le> 0.99 \<and>
    0.01 \<le> ratio_end q \<and> ratio_end q \<le> 0.8 \<longrightarrow> Anchor_new q = Inr q) \<and>
   (thickness r < 0 \<or> width r < 0 \<or> length_wp r < 0 \<longrightarrow> WoodPanel_new r = Inl ParameterError) \<and>
   (0 < thickness r \<and> 0 < width r \<and> 0 < length_wp r \<longrightarrow> WoodPanel_new r = Inr r) \<and>
   ((\<exists>x\<in>set ss. \<exists>e. WoodScrew_new (obj_params x) = Inl e) \<or>
    (\<exists>x\<in>set as. \<exists>e. Anchor_new (obj_params x) = Inl e) \<longrightarrow>
    script_with ss as tmp rnd env w = Inl ParameterError \<or>
    script_with ss as tmp rnd env w = Inl ValueError)"
proof -
  have s1: "neck_diam p < 0 \<or> neck_length p < 0 \<or> length_ws p < 0 \<or> neck_exposed p < 0 \<or>
      bore_diam p < 0 \<longrightarrow> WoodScrew_new p = Inl ParameterError"
    by (auto simp add: WoodScrew_new_eq)
  have s2: "0 < neck_diam p \<and> 0 < neck_length p \<and> 0 < length_ws p \<and> 0 < neck_exposed p \<and>
      0 < bore_diam p \<longrightarrow>
      WoodScrew_new p = (if length_ws p \<le> neck_length p then Inl ValueError else Inr p)"
    by (simp add: WoodScrew_new_eq)
  have a1: "diameter q < 0 \<or> height q < 0 \<or> neck_diameter q < 0 \<or> head_diameter q < 0 \<or>
      spline_point_count q < 4 \<or> 200 < spline_point_count q \<or>
      ratio_start q < 0.5 \<or> 0.99 < ratio_start q \<or>
      ratio_end q < 0.01 \<or> 0.8 < ratio_end q \<longrightarrow> Anchor_new q = Inl ParameterError"
    by (auto simp add: Anchor_new_eq)
  have a2: "0 < diameter q \<and> 0 < height q \<and> 0 < neck_diameter q \<and> 0 < head_diameter q \<and>
      4 \<le> spline_point_count q \<and> spline_point_count q \<le> 200 \<and>
      0.5 \<le> ratio_start q \<and> ratio_start q \<le> 0.99 \<and>
      0.01 \<le> ratio_end q \<and> ratio_end q \<le> 0.8 \<longrightarrow> Anchor_new q = Inr q"
    by (simp add: Anchor_new_eq)
  have p1: "thickness r < 0 \<or> width r < 0 \<or> length_wp r < 0 \<longrightarrow>
      WoodPanel_new r = Inl ParameterError"
    by (auto simp add: WoodPanel_new_eq)
  have p2: "0 < thickness r \<and> 0 < width r \<and> 0 < length_wp r \<longrightarrow> WoodPanel_new r = Inr r"
    by (simp add: WoodPanel_new_eq)
  have run: "(\<exists>x\<in>set ss. \<exists>e. WoodScrew_new (obj_params x) = Inl e) \<or>
      (\<exists>x\<in>set as. \<exists>e. Anchor_new (obj_params x) = Inl e) \<longrightarrow>
      script_with ss as tmp rnd env w = Inl ParameterError \<or>
      script_with ss as tmp rnd env w = Inl ValueError"
  proof
    assume "(\<exists>x\<in>set ss. \<exists>e. WoodScrew_new (obj_params x) = Inl e) \<or>
      (\<exists>x\<in>set as. \<exists>e. Anchor_new (obj_params x) = Inl e)"
    from build_catalogue_raises [OF this, of tmp w]
    show "script_with ss as tmp rnd env w = Inl ParameterError \<or>
      script_with ss as tmp rnd env w = Inl ValueError"
      by (auto simp add: script_with_def catalogue_section_def bind_err_def)
  qed
  from s1 s2 a1 a2 p1 p2 run show ?thesis
    by (intro conjI)
qed

theorem invalid_parameter_raises_witness:
  "WoodScrew_new (WoodScrew_defaults \<lparr> neck_length := - 1 \<rparr>) = Inl ParameterError \<and>
   WoodScrew_new (WoodScrew_defaults \<lparr> neck_length := 30 \<rparr>) =
     Inr (WoodScrew_defaults \<lparr> neck_length := 30 \<rparr>) \<and>
   Anchor_new (Anchor_defaults \<lparr> spline_point_count := 3 \<rparr>) = Inl ParameterError \<and>
   Anchor_new (Anchor_defaults \<lparr> ratio_start := 0.4 \<rparr>) = Inl ParameterError \<and>
   Anchor_new Anchor_defaults = Inr Anchor_defaults \<and>
   WoodPanel_new (WoodPanel_defaults \<lparr> width := - 1 \<rparr>) = Inl ParameterError \<and>
   WoodPanel_new WoodPanel_defaults = Inr WoodPanel_defaults \<and>
   script_with
     [\<lparr> item_id = ''screw_bad'', obj_params = WoodScrew_defaults \<lparr> neck_length := - 1 \<rparr>,
        item_criteria = [] \<rparr>]
     anchors ''/tmp/tmpcatalogue'' example_placement
     ''cmdline'' \<lparr> files = Map.empty, trace = [] \<rparr> = Inl ParameterError"
proof -
  note bad = invalid_parameter_raises
      [of "WoodScrew_defaults \<lparr> neck_length := - 1 \<rparr>"
          "Anchor_defaults \<lparr> spline_point_count := 3 \<rparr>"
          "WoodPanel_defaults \<lparr> width := - 1 \<rparr>"
          "[\<lparr> item_id = ''screw_bad'', obj_params = WoodScrew_defaults \<lparr> neck_length := - 1 \<rparr>,
             item_criteria = [] \<rparr>]"
          anchors "''/tmp/tmpcatalogue''" example_placement "''cmdline''"
          "\<lparr> files = Map.empty, trace = [] \<rparr>"]
  note good = invalid_parameter_raises
      [of "WoodScrew_defaults \<lparr> neck_length := 30 \<rparr>" Anchor_defaults WoodPanel_defaults
          "[]" "[]" "''/tmp/tmpcatalogue''" example_placement "''cmdline''"
          "\<lparr> files = Map.empty, trace = [] \<rparr>"]
  have b1: "WoodScrew_new (WoodScrew_defaults \<lparr> neck_length := - 1 \<rparr>) = Inl ParameterError"
    using bad by simp
  have b2: "Anchor_new (Anchor_defaults \<lparr> spline_point_count := 3 \<rparr>) = Inl ParameterError"
    using bad by simp
  have b3: "Anchor_new (Anchor_defaults \<lparr> ratio_start := 0.4 \<rparr>) = Inl ParameterError"
    using invalid_parameter_raises [of _ "Anchor_defaults \<lparr> ratio_start := 0.4 \<rparr>"]
    by simp
  have b4: "WoodPanel_new (WoodPanel_defaults \<lparr> width := - 1 \<rparr>) = Inl ParameterError"
    using bad by simp
  have g1: "WoodScrew_new (WoodScrew_defaults \<lparr> neck_length := 30 \<rparr>) =
      Inr (WoodScrew_defaults \<lparr> neck_length := 30 \<rparr>)"
    using good by (simp add: WoodScrew_defaults_def)
  have g2: "Anchor_new Anchor_defaults = Inr Anchor_defaults"
    using good by (simp add: Anchor_defaults_def)
  have g3: "WoodPanel_new WoodPanel_defaults = Inr WoodPanel_defaults"
    using good by (simp add: WoodPanel_defaults_def)
  have "script_with
     [\<lparr> item_id = ''screw_bad'', obj_params = WoodScrew_defaults \<lparr> neck_length := - 1 \<rparr>,
        item_criteria = [] \<rparr>]
     anchors ''/tmp/tmpcatalogue'' example_placement
     ''cmdline'' \<lparr> files = Map.empty, trace = [] \<rparr> = Inl ParameterError"
    using bad b1
    by (simp add: script_with_def catalogue_section_def build_catalogue_def bind_err_def)
  with b1 g1 b2 b3 g2 b4 g3 show ?thesis by (intro conjI)
qed

text \<open>
  C10. The declared ranges do not force the wedge to narrow: the anchor with
  \<open>ratio_start = 0.5\<close> and \<open>ratio_end = 0.8\<close> (all else default) passes validation, and
  its wedge radii are 2.5 at the start and 4 at the end, so the end radius is the larger.
  The same holds strictly inside both ranges, at \<open>ratio_start = 0.6\<close> and
  \<open>ratio_end = 0.75\<close>, with the radii 3 and 3.75. No operation of the anchor can refuse
  either: each returns a value, none an error.
\<close>

theorem wedge_need_not_narrow:
  "Anchor_new (Anchor_defaults \<lparr> ratio_start := 0.5, ratio_end := 0.8 \<rparr>) =
     Inr (Anchor_defaults \<lparr> ratio_start := 0.5, ratio_end := 0.8 \<rparr>) \<and>
   fst (wedge_radii (Anchor_defaults \<lparr> ratio_start := 0.5, ratio_end := 0.8 \<rparr>)) = (2.5, 4) \<and>
   fst (fst (wedge_radii (Anchor_defaults \<lparr> ratio_start := 0.5, ratio_end := 0.8 \<rparr>)))
     < snd (fst (wedge_radii (Anchor_defaults \<lparr> ratio_start := 0.5, ratio_end := 0.8 \<rparr>))) \<and>
   Anchor_new (Anchor_defaults \<lparr> ratio_start := 0.6, ratio_end := 0.75 \<rparr>) =
     Inr (Anchor_defaults \<lparr> ratio_start := 0.6, ratio_end := 0.75 \<rparr>) \<and>
   fst (wedge_radii (Anchor_defaults \<lparr> ratio_start := 0.6, ratio_end := 0.75 \<rparr>)) = (3, 3.75) \<and>
   fst (fst (wedge_radii (Anchor_defaults \<lparr> ratio_start := 0.6, ratio_end := 0.75 \<rparr>)))
     < snd (fst (wedge_radii (Anchor_defaults \<lparr> ratio_start := 0.6, ratio_end := 0.75 \<rparr>)))"
  by (simp add: Anchor_new_eq wedge_radii_def Anchor_defaults_def)

section \<open>Properties of the wood screw and the anchor\<close>

text \<open>
  C9. For every wood screw, \<^verbatim>\<open>make_simple\<close> returns the solid that \<^verbatim>\<open>make_cutter\<close> returns:
  a circle of radius \<open>bore_diam / 2\<close> on the XY plane at the origin, extruded by
  \<open>- neck_length\<close>, in union with the thread's pilot-hole cutter translated to
  \<open>z = - length\<close>.
\<close>

theorem make_simple_is_make_cutter:
  "fst (WoodScrew_make_simple pc s) = fst (WoodScrew_make_cutter pc s) \<and>
   fst (WoodScrew_make_simple pc s) =
     Union_obj (Extrude (Circle (Workplane_new ''XY'' (0, 0, 0)) (bore_diam s / 2))
                        (- neck_length s))
               (Translate (pc (thread s)) (0, 0, - length_ws s))"
  by (simp add: WoodScrew_make_simple_def WoodScrew_make_cutter_def)

text \<open>
  C6. The parameter set of a part is immutable after construction: each operation of a
  wood screw (\<^verbatim>\<open>make\<close>, \<^verbatim>\<open>make_simple\<close>, \<^verbatim>\<open>make_cutter\<close>, the mate
  \<^verbatim>\<open>mate_threadstart\<close>) and of an anchor (\<^verbatim>\<open>make\<close>, \<^verbatim>\<open>make_simple\<close>, \<^verbatim>\<open>make_cutter\<close>,
  \<^verbatim>\<open>wedge_radii\<close>, the mates \<^verbatim>\<open>mate_screwhead\<close>, \<^verbatim>\<open>mate_center\<close>, \<^verbatim>\<open>mate_base\<close>) returns
  the receiver with every field as it was. For \<^verbatim>\<open>WoodScrew.make\<close> this rests on the
  inherited \<^verbatim>\<open>make\<close> it calls first, which is taken to do the same.
\<close>

theorem parameters_unchanged:
  "(snd (super_make s) = s \<longrightarrow> snd (WoodScrew_make super_make s) = s) \<and>
   snd (WoodScrew_make_simple pc s) = s \<and>
   snd (WoodScrew_make_cutter pc s) = s \<and>
   snd (mate_threadstart s) = s \<and>
   snd (Anchor_make drive_apply a) = a \<and>
   snd (Anchor_make_simple a) = a \<and>
   snd (Anchor_make_cutter a) = a \<and>
   snd (wedge_radii a) = a \<and>
   snd (mate_screwhead a) = a \<and>
   snd (mate_center a) = a \<and>
   snd (mate_base a) = a"
  by (simp add: WoodScrew_make_def WoodScrew_make_simple_def WoodScrew_make_cutter_def
      mate_threadstart_def Anchor_make_def Anchor_make_simple_def Anchor_make_cutter_def
      wedge_radii_def mate_screwhead_def mate_center_def mate_base_def Let_def split_beta)

theorem parameters_unchanged_witness:
  "snd (example_super_make WoodScrew_defaults) = WoodScrew_defaults \<and>
   snd (WoodScrew_make example_super_make WoodScrew_defaults) = WoodScrew_defaults \<and>
   snd (WoodScrew_make_cutter example_pilothole WoodScrew_defaults) = WoodScrew_defaults \<and>
   snd (Anchor_make (\<lambda>d obj. obj) Anchor_defaults) = Anchor_defaults \<and>
   snd (mate_screwhead Anchor_defaults) = Anchor_defaults"
proof -
  have h: "snd (example_super_make WoodScrew_defaults) = WoodScrew_defaults"
    by (simp add: example_super_make_def)
  from parameters_unchanged
      [of example_super_make WoodScrew_defaults example_pilothole "\<lambda>d obj. obj" Anchor_defaults]
    h
  show ?thesis by simp
qed

subsection \<open>The wedge of the anchor\<close>

lemma length_angles_radius: "length (angles_radius a) = nat (spline_point_count a)"
  by (simp add: angles_radius_def wedge_radii_def)

lemma length_points: "length (points a) = nat (spline_point_count a)"
  by (simp add: points_def length_angles_radius)

lemma nth_angles_radius:
  assumes "1 \<le> i" and "i \<le> spline_point_count a"
  shows "angles_radius a ! nat (i - 1) =
           (real_of_int i * (pi / real_of_int (spline_point_count a)),
            fst (fst (wedge_radii a)) +
              (snd (fst (wedge_radii a)) - fst (fst (wedge_radii a))) *
              (real_of_int i / real_of_int (spline_point_count a)))"
proof -
  have k: "nat (i - 1) < length [1..spline_point_count a]"
    using assms by simp
  have "[1..spline_point_count a] ! nat (i - 1) = i"
    using assms by simp
  with k show ?thesis
    by (simp add: angles_radius_def wedge_radii_def)
qed

lemma nth_points:
  assumes "1 \<le> i" and "i \<le> spline_point_count a"
  shows "points a ! nat (i - 1) =
           (cos (real_of_int i * pi / real_of_int (spline_point_count a)) *
              (fst (fst (wedge_radii a)) +
                (snd (fst (wedge_radii a)) - fst (fst (wedge_radii a))) *
                (real_of_int i / real_of_int (spline_point_count a))),
            - sin (real_of_int i * pi / real_of_int (spline_point_count a)) *
              (fst (fst (wedge_radii a)) +
                (snd (fst (wedge_radii a)) - fst (fst (wedge_radii a))) *
                (real_of_int i / real_of_int (spline_point_count a))))"
proof -
  have "nat (i - 1) < length (angles_radius a)"
    using assms by (simp add: length_angles_radius)
  then show ?thesis
    using nth_angles_radius [OF assms] by (simp add: points_def)
qed

text \<open>
  C3. For every anchor, \<^verbatim>\<open>wedge_radii\<close> is the pair of \<open>(diameter / 2) * ratio_start\<close> and
  \<open>(diameter / 2) * ratio_end\<close>. The wedge that \<^verbatim>\<open>make\<close> cuts is the head slot: a spline
  from \<open>(start_r, 0)\<close> through \<^verbatim>\<open>points\<close>, closed and extruded by \<open>head_diameter\<close>. There
  are exactly \<open>spline_point_count\<close> points; for \<open>i\<close> from 1 to \<open>spline_point_count\<close> the
  \<open>i\<close>-th lies at the angle \<open>i * pi / spline_point_count\<close>, which is never zero, at the
  radius \<open>start_r + (end_r - start_r) * (i / spline_point_count)\<close>, and has the coordinates
  \<open>(cos a * r, - sin a * r)\<close>.
\<close>

theorem wedge_spline_points:
  "fst (wedge_radii a) = ((diameter a / 2) * ratio_start a, (diameter a / 2) * ratio_end a) \<and>
   Anchor_head_slot a =
     Extrude
       (Close
         (Spline
           (MoveTo (Workplane_new ''XY'' (0, 0, - ((head_diameter a + height a) / 2)))
                   (fst (fst (wedge_radii a))) 0)
           (points a)))
       (head_diameter a) \<and>
   fst (Anchor_make drive_apply a) =
     (let obj = Cut (Cut (Cut (fst (Anchor_make_simple a)) (Anchor_neck_slot a))
                         (Anchor_head_slot a))
                    (Anchor_access_port a)
      in case drive_an a of Some d \<Rightarrow> drive_apply d obj | None \<Rightarrow> obj) \<and>
   length (points a) = nat (spline_point_count a) \<and>
   (\<forall>i\<in>{1..spline_point_count a}.
      0 < real_of_int i * pi / real_of_int (spline_point_count a) \<and>
      points a ! nat (i - 1) =
        (cos (real_of_int i * pi / real_of_int (spline_point_count a)) *
           (fst (fst (wedge_radii a)) +
             (snd (fst (wedge_radii a)) - fst (fst (wedge_radii a))) *
             (real_of_int i / real_of_int (spline_point_count a))),
         - sin (real_of_int i * pi / real_of_int (spline_point_count a)) *
           (fst (fst (wedge_radii a)) +
             (snd (fst (wedge_radii a)) - fst (fst (wedge_radii a))) *
             (real_of_int i / real_of_int (spline_point_count a)))))"
proof -
  have radii: "fst (wedge_radii a) =
      ((diameter a / 2) * ratio_start a, (diameter a / 2) * ratio_end a)"
    by (simp add: wedge_radii_def)
  have slot: "Anchor_head_slot a =
     Extrude
       (Close
         (Spline
           (MoveTo (Workplane_new ''XY'' (0, 0, - ((head_diameter a + height a) / 2)))
                   (fst (fst (wedge_radii a))) 0)
           (points a)))
       (head_diameter a)"
    by (simp add: Anchor_head_slot_def wedge_radii_def)
  have mk: "fst (Anchor_make drive_apply a) =
     (let obj = Cut (Cut (Cut (fst (Anchor_make_simple a)) (Anchor_neck_slot a))
                         (Anchor_head_slot a))
                    (Anchor_access_port a)
      in case drive_an a of Some d \<Rightarrow> drive_apply d obj | None \<Rightarrow> obj)"
    by (simp add: Anchor_make_def Anchor_make_simple_def Let_def)
  have pts: "\<forall>i\<in>{1..spline_point_count a}.
      0 < real_of_int i * pi / real_of_int (spline_point_count a) \<and>
      points a ! nat (i - 1) =
        (cos (real_of_int i * pi / real_of_int (spline_point_count a)) *
           (fst (fst (wedge_radii a)) +
             (snd (fst (wedge_radii a)) - fst (fst (wedge_radii a))) *
             (real_of_int i / real_of_int (spline_point_count a))),
         - sin (real_of_int i * pi / real_of_int (spline_point_count a)) *
           (fst (fst (wedge_radii a)) +
             (snd (fst (wedge_radii a)) - fst (fst (wedge_radii a))) *
             (real_of_int i / real_of_int (spline_point_count a))))"
  proof
    fix i assume "i \<in> {1..spline_point_count a}"
    then have i: "1 \<le> i" "i \<le> spline_point_count a" by simp_all
    then have "0 < real_of_int i" "0 < real_of_int (spline_point_count a)" by simp_all
    then have "0 < real_of_int i * pi / real_of_int (spline_point_count a)"
      by simp
    with nth_points [OF i] show
      "0 < real_of_int i * pi / real_of_int (spline_point_count a) \<and>
      points a ! nat (i - 1) =
        (cos (real_of_int i * pi / real_of_int (spline_point_count a)) *
           (fst (fst (wedge_radii a)) +
             (snd (fst (wedge_radii a)) - fst (fst (wedge_radii a))) *
             (real_of_int i / real_of_int (spline_point_count a))),
         - sin (real_of_int i * pi / real_of_int (spline_point_count a)) *
           (fst (fst (wedge_radii a)) +
             (snd (fst (wedge_radii a)) - fst (fst (wedge_radii a))) *
             (real_of_int i / real_of_int (spline_point_count a))))"
      by simp
  qed
  from radii slot mk length_points [of a] pts show ?thesis
    by (intro conjI)
qed

theorem wedge_spline_points_witness:
  "(10::int) \<in> {1..spline_point_count Anchor_defaults} \<and>
   length (points Anchor_defaults) = 10 \<and>
   points Anchor_defaults ! 9 = (- 3.5, 0)"
proof -
  have mem: "(10::int) \<in> {1..spline_point_count Anchor_defaults}"
    by (simp add: Anchor_defaults_def)
  have "length (points Anchor_defaults) = nat (spline_point_count Anchor_defaults)"
    using wedge_spline_points [of Anchor_defaults] by blast
  then have len: "length (points Anchor_defaults) = 10"
    by (simp add: Anchor_defaults_def)
  have "\<forall>i\<in>{1..spline_point_count Anchor_defaults}.
      points Anchor_defaults ! nat (i - 1) =
        (cos (real_of_int i * pi / real_of_int (spline_point_count Anchor_defaults)) *
           (fst (fst (wedge_radii Anchor_defaults)) +
             (snd (fst (wedge_radii Anchor_defaults)) - fst (fst (wedge_radii Anchor_defaults))) *
             (real_of_int i / real_of_int (spline_point_count Anchor_defaults))),
         - sin (real_of_int i * pi / real_of_int (spline_point_count Anchor_defaults)) *
           (fst (fst (wedge_radii Anchor_defaults)) +
             (snd (fst (wedge_radii Anchor_defaults)) - fst (fst (wedge_radii Anchor_defaults))) *
             (real_of_int i / real_of_int (spline_point_count Anchor_defaults))))"
    using wedge_spline_points [of Anchor_defaults] by blast
  from bspec [OF this mem] have "points Anchor_defaults ! 9 = (- 3.5, 0)"
    by (simp add: Anchor_defaults_def wedge_radii_def)
  with mem len show ?thesis by simp
qed

section \<open>Properties of the fastener\<close>

lemma vabs_z: "vabs (0, 0, z) = \<bar>z\<bar>"
  by simp

lemma vabs_vsub_self: "vabs (vsub v v) = 0"
  by (cases v rule: prod_cases3) simp

lemma py_index_last: "xs \<noteq> [] \<Longrightarrow> py_index xs (- 1) = Inr (last xs)"
  by (cases xs rule: rev_cases) (simp_all add: py_index_def nat_add_distrib)

lemma py_index_first: "xs \<noteq> [] \<Longrightarrow> py_index xs 0 = Inr (hd xs)"
  by (cases xs) (simp_all add: py_index_def)

lemma anchor_slack_default:
  "vabs (vsub (origin (local_coords (fst (mate_base Anchor_defaults))))
              (origin (local_coords (fst (mate_center Anchor_defaults))))) = 5 / 2"
  by (simp add: mate_base_def mate_center_def Anchor_defaults_def vabs_z del: vabs.simps)

text \<open>An empty evaluation raises at \<^verbatim>\<open>eval[-1]\<close>.\<close>

lemma get_components_empty: "get_components [] = Inl IndexError"
  by (simp add: get_components_def Anchor_new_defaults bind_err_def py_index_def)

text \<open>
  On an evaluation that is not empty, \<^verbatim>\<open>get_components\<close> hands the derived lengths to the
  constructor of the screw, with the slack 2.5 of the default anchor: it returns the
  default anchor and the screw of these lengths when the constructor accepts them, and
  raises as the constructor does otherwise.
\<close>

lemma get_components_eq:
  assumes "eval \<noteq> []"
  shows "get_components eval =
     (let neck = vabs (vsub (start_point (last eval)) (start_point (hd eval))) - 5 / 2;
          thread_length = vabs (vsub (end_point (last eval)) (start_point (last eval))) * 0.8
      in if 0 < neck \<and> 0 < neck + thread_length
         then if neck + thread_length \<le> neck then Inl ValueError
              else Inr \<lparr> anchor = Anchor_defaults,
                         screw = WoodScrew_defaults \<lparr> neck_length := neck,
                                                      length_ws := neck + thread_length \<rparr> \<rparr>
         else Inl ParameterError)"
  using assms
  by (simp add: get_components_def Anchor_new_defaults py_index_last py_index_first
      bind_err_def Let_def WoodScrew_new_eq anchor_slack_default
      del: vabs.simps vsub.simps)
     (simp add: WoodScrew_defaults_def)

text \<open>
  With one effect the first and the last effect are the same, the derived neck length is
  minus the slack, and the constructor raises.
\<close>

lemma get_components_single: "get_components [e] = Inl ParameterError"
  by (simp add: get_components_eq Let_def vabs_vsub_self del: vabs.simps vsub.simps)

text \<open>
  C1, as the claim states it, fails on an evaluation of one effect, which is not empty:
  no wood screw is created there, the constructor raises.
\<close>

theorem no_screw_for_one_effect:
  "one_effect_evaluation \<noteq> [] \<and>
   get_components one_effect_evaluation = Inl ParameterError"
  by (simp add: one_effect_evaluation_def get_components_single)

text \<open>
  C1, amended. For every evaluation on which \<^verbatim>\<open>get_components\<close> creates a wood screw,
  which takes at least two effects, the screw has a \<open>neck_length\<close> equal to the distance
  from the first effect's start point to the last effect's start point minus the anchor's
  slack (the distance between the origins of \<^verbatim>\<open>mate_base\<close> and \<^verbatim>\<open>mate_center\<close> of the
  default anchor, which is the anchor returned); its thread length, \<open>length - neck_length\<close>,
  is 0.8 times the distance from the last effect's start point to its end point; and its
  \<open>length\<close> is \<open>neck_length\<close> plus that thread length.
\<close>

theorem get_components_screw_dimensions:
  assumes "get_components eval = Inr c"
  shows "2 \<le> length eval \<and>
         anchor c = Anchor_defaults \<and>
         neck_length (screw c) =
           vabs (vsub (start_point (last eval)) (start_point (hd eval))) -
           vabs (vsub (origin (local_coords (fst (mate_base (anchor c)))))
                      (origin (local_coords (fst (mate_center (anchor c)))))) \<and>
         length_ws (screw c) - neck_length (screw c) =
           vabs (vsub (end_point (last eval)) (start_point (last eval))) * 0.8 \<and>
         length_ws (screw c) =
           neck_length (screw c) +
           vabs (vsub (end_point (last eval)) (start_point (last eval))) * 0.8"
proof -
  have ne: "eval \<noteq> []"
    using assms by (auto simp add: get_components_empty)
  have two: "2 \<le> length eval"
  proof (cases eval)
    case Nil
    with ne show ?thesis by simp
  next
    case (Cons e es)
    with assms show ?thesis
      by (cases es) (auto simp add: get_components_single)
  qed
  have fields: "anchor c = Anchor_defaults \<and>
         neck_length (screw c) =
           vabs (vsub (start_point (last eval)) (start_point (hd eval))) -
           vabs (vsub (origin (local_coords (fst (mate_base (anchor c)))))
                      (origin (local_coords (fst (mate_center (anchor c)))))) \<and>
         length_ws (screw c) - neck_length (screw c) =
           vabs (vsub (end_point (last eval)) (start_point (last eval))) * 0.8 \<and>
         length_ws (screw c) =
           neck_length (screw c) +
           vabs (vsub (end_point (last eval)) (start_point (last eval))) * 0.8"
    using assms ne
    by (auto simp add: get_components_def Anchor_new_defaults py_index_last py_index_first
        bind_err_def Let_def WoodScrew_new_eq WoodScrew_defaults_def split: if_splits
        simp del: vabs.simps vsub.simps)
  from two fields show ?thesis by (rule conjI)
qed

theorem get_components_screw_dimensions_witness:
  "get_components example_evaluation =
     Inr \<lparr> anchor = Anchor_defaults,
           screw = WoodScrew_defaults \<lparr> neck_length := 25 / 2, length_ws := 41 / 2 \<rparr> \<rparr> \<and>
   2 \<le> length example_evaluation \<and>
   vabs (vsub (start_point (last example_evaluation)) (start_point (hd example_evaluation))) -
   vabs (vsub (origin (local_coords (fst (mate_base Anchor_defaults))))
              (origin (local_coords (fst (mate_center Anchor_defaults))))) = 25 / 2 \<and>
   vabs (vsub (end_point (last example_evaluation)) (start_point (last example_evaluation))) * 0.8
     = 8"
proof -
  have ne: "example_evaluation \<noteq> []"
    by (simp add: example_evaluation_def)
  have gc: "get_components example_evaluation =
     Inr \<lparr> anchor = Anchor_defaults,
           screw = WoodScrew_defaults \<lparr> neck_length := 25 / 2, length_ws := 41 / 2 \<rparr> \<rparr>"
    by (simp add: get_components_eq [OF ne] Let_def)
       (simp add: example_evaluation_def)
  from get_components_screw_dimensions [OF gc] gc show ?thesis
    by simp
qed

subsection \<open>The cuts of the applicator\<close>

lemma cut_from_part_world_coords:
  "world_coords (cut_from_part cs_sub cs_add wc cutter e st p) = world_coords (st p)"
  by (simp add: cut_from_part_def)

lemma cut_from_part_local_obj:
  "local_obj (cut_from_part cs_sub cs_add wc cutter e st p) =
     (if p = part e
      then Cut (local_obj (st p)) (cs_add (cs_sub wc (world_coords (st p))) cutter)
      else local_obj (st p))"
  by (simp add: cut_from_part_def)

lemma fold_cut_world_coords:
  "world_coords (fold (cut_from_part cs_sub cs_add wc cutter) es st p) = world_coords (st p)"
  by (induction es arbitrary: st) (simp_all add: cut_from_part_world_coords)

text \<open>A loop cuts the cutter from a part once for every effect that holds the part.\<close>

lemma fold_cut_local_obj:
  "local_obj (fold (cut_from_part cs_sub cs_add wc cutter) es st p) =
     ((\<lambda>obj. Cut obj (cs_add (cs_sub wc (world_coords (st p))) cutter)) ^^
        count_list (map part es) p) (local_obj (st p))"
proof (induction es arbitrary: st)
  case Nil
  show ?case by simp
next
  case (Cons e es)
  define g where "g = (\<lambda>obj. Cut obj (cs_add (cs_sub wc (world_coords (st p))) cutter))"
  have swap: "(g ^^ n) (g x) = g ((g ^^ n) x)" for n x
    by (simp add: funpow_swap1)
  have "local_obj (fold (cut_from_part cs_sub cs_add wc cutter) (e # es) st p) =
      (g ^^ count_list (map part es) p)
        (local_obj (cut_from_part cs_sub cs_add wc cutter e st p))"
    by (simp add: Cons.IH cut_from_part_world_coords g_def)
  also have "\<dots> = (g ^^ count_list (map part es) p)
      (if p = part e then g (local_obj (st p)) else local_obj (st p))"
    by (simp add: cut_from_part_local_obj g_def)
  also have "\<dots> = (g ^^ count_list (map part (e # es)) p) (local_obj (st p))"
    by (auto simp add: swap)
  finally show ?case by (simp add: g_def)
qed

lemma fold_cut_other:
  "p \<notin> set (map part es) \<Longrightarrow> fold (cut_from_part cs_sub cs_add wc cutter) es st p = st p"
  by (induction es arbitrary: st) (auto simp add: cut_from_part_def)

lemma count_list_distinct:
  "distinct xs \<Longrightarrow> x \<in> set xs \<Longrightarrow> count_list xs x = 1"
  by (induction xs) (auto simp add: count_list_0_iff)

text \<open>
  What \<^verbatim>\<open>apply_alterations\<close> leaves in a part, for any evaluation: the screw cutter cut
  once for every effect that holds the part, then the anchor cutter cut once for every
  effect but the last that holds it.
\<close>

lemma apply_alterations_local_obj:
  "local_obj (apply_alterations cs_sub cs_add pc s swc a awc eval st p) =
     ((\<lambda>obj. Cut obj (cs_add (cs_sub awc (world_coords (st p))) (fst (Anchor_make_cutter a)))) ^^
        count_list (map part (butlast eval)) p)
     (((\<lambda>obj. Cut obj (cs_add (cs_sub swc (world_coords (st p))) (fst (WoodScrew_make_cutter pc s)))) ^^
        count_list (map part eval) p)
      (local_obj (st p)))"
  by (simp add: apply_alterations_def Let_def fold_cut_local_obj fold_cut_world_coords)

text \<open>When every effect holds a part of its own, no earlier effect holds the last one's.\<close>

lemma last_part_not_earlier:
  assumes "distinct (map part eval)" and "eval \<noteq> []"
  shows "part (last eval) \<notin> set (map part (butlast eval))"
proof -
  from assms(2) have "map part eval = map part (butlast eval) @ [part (last eval)]"
    by (metis append_butlast_last_id list.simps(8) list.simps(9) map_append)
  with assms(1) have "distinct (map part (butlast eval) @ [part (last eval)])"
    by simp
  then show ?thesis by simp
qed

text \<open>
  C8. An evaluation holds every part once. Then \<^verbatim>\<open>apply_alterations\<close> changes no
  placement and cuts, from the solid of every part in the evaluation, the screw cutter
  moved into the part's local coordinates; from the part of every effect but the last it
  cuts the anchor cutter as well, moved likewise; so the last effect's part is cut by the
  screw cutter only; and a part that is not in the evaluation is left as it was.
\<close>

theorem apply_alterations_cuts:
  assumes "distinct (map part eval)"
  shows "world_coords (apply_alterations cs_sub cs_add pc s swc a awc eval st p) =
           world_coords (st p) \<and>
         (p \<in> set (map part (butlast eval)) \<longrightarrow>
            local_obj (apply_alterations cs_sub cs_add pc s swc a awc eval st p) =
              Cut (Cut (local_obj (st p))
                       (cs_add (cs_sub swc (world_coords (st p)))
                               (fst (WoodScrew_make_cutter pc s))))
                  (cs_add (cs_sub awc (world_coords (st p))) (fst (Anchor_make_cutter a)))) \<and>
         (eval \<noteq> [] \<and> part (last eval) = p \<longrightarrow>
            local_obj (apply_alterations cs_sub cs_add pc s swc a awc eval st p) =
              Cut (local_obj (st p))
                  (cs_add (cs_sub swc (world_coords (st p)))
                          (fst (WoodScrew_make_cutter pc s)))) \<and>
         (p \<notin> set (map part eval) \<longrightarrow>
            apply_alterations cs_sub cs_add pc s swc a awc eval st p = st p)"
proof -
  let ?st' = "apply_alterations cs_sub cs_add pc s swc a awc eval st"
  let ?sc = "cs_add (cs_sub swc (world_coords (st p))) (fst (WoodScrew_make_cutter pc s))"
  let ?ac = "cs_add (cs_sub awc (world_coords (st p))) (fst (Anchor_make_cutter a))"
  have wc: "world_coords (?st' p) = world_coords (st p)"
    by (simp add: apply_alterations_def Let_def fold_cut_world_coords)
  have lo: "local_obj (?st' p) =
      ((\<lambda>obj. Cut obj ?ac) ^^ count_list (map part (butlast eval)) p)
       (((\<lambda>obj. Cut obj ?sc) ^^ count_list (map part eval) p) (local_obj (st p)))"
    by (rule apply_alterations_local_obj)
  have both: "p \<in> set (map part (butlast eval)) \<longrightarrow>
      local_obj (?st' p) = Cut (Cut (local_obj (st p)) ?sc) ?ac"
  proof
    assume h: "p \<in> set (map part (butlast eval))"
    from assms have d: "distinct (map part (butlast eval))"
      by (simp add: map_butlast distinct_butlast)
    from h have "p \<in> set (map part eval)"
      by (auto dest: in_set_butlastD)
    with h d assms
    have "count_list (map part eval) p = 1" "count_list (map part (butlast eval)) p = 1"
      by (simp_all add: count_list_distinct del: set_map)
    with lo show "local_obj (?st' p) = Cut (Cut (local_obj (st p)) ?sc) ?ac" by simp
  qed
  have lst: "eval \<noteq> [] \<and> part (last eval) = p \<longrightarrow>
      local_obj (?st' p) = Cut (local_obj (st p)) ?sc"
  proof
    assume h: "eval \<noteq> [] \<and> part (last eval) = p"
    then have ne: "eval \<noteq> []" and pl: "part (last eval) = p"
      by blast+
    from last_part_not_earlier [OF assms ne] pl
    have nin: "p \<notin> set (map part (butlast eval))"
      by simp
    then have zero: "count_list (map part (butlast eval)) p = 0"
      by (rule iffD2 [OF count_list_0_iff])
    from ne have "map part eval = map part (butlast eval @ [last eval])"
      by simp
    with pl have "map part eval = map part (butlast eval) @ [p]"
      by simp
    then have "count_list (map part eval) p = count_list (map part (butlast eval)) p + 1"
      by simp
    with zero have "count_list (map part eval) p = 1" "count_list (map part (butlast eval)) p = 0"
      by simp_all
    with lo show "local_obj (?st' p) = Cut (local_obj (st p)) ?sc" by simp
  qed
  have other: "p \<notin> set (map part eval) \<longrightarrow> ?st' p = st p"
  proof
    assume p: "p \<notin> set (map part eval)"
    then have "p \<notin> set (map part (butlast eval))"
      by (auto dest: in_set_butlastD)
    with p show "?st' p = st p"
      by (simp add: apply_alterations_def Let_def fold_cut_other del: set_map)
  qed
  from wc both lst other show ?thesis by (intro conjI)
qed

theorem apply_alterations_cuts_witness:
  "(let st' = apply_alterations example_cs_sub example_cs_add example_pilothole
                WoodScrew_defaults example_placement Anchor_defaults example_placement
                example_evaluation example_store;
        screw_cutter = (\<lambda>p. example_cs_add (example_cs_sub example_placement
                                         (world_coords (example_store p)))
                         (fst (WoodScrew_make_cutter example_pilothole WoodScrew_defaults)));
        anchor_cutter = (\<lambda>p. example_cs_add (example_cs_sub example_placement
                                          (world_coords (example_store p)))
                          (fst (Anchor_make_cutter Anchor_defaults)))
    in distinct (map part example_evaluation) \<and>
       0 \<in> set (map part (butlast example_evaluation)) \<and>
       local_obj (st' 0) =
         Cut (Cut (local_obj (example_store 0)) (screw_cutter 0)) (anchor_cutter 0) \<and>
       example_evaluation \<noteq> [] \<and>
       part (last example_evaluation) = 1 \<and>
       local_obj (st' 1) = Cut (local_obj (example_store 1)) (screw_cutter 1) \<and>
       2 \<notin> set (map part example_evaluation) \<and>
       st' 2 = example_store 2)"
proof -
  have d: "distinct (map part example_evaluation)"
    by (simp add: example_evaluation_def)
  have h0: "0 \<in> set (map part (butlast example_evaluation))"
    by (simp add: example_evaluation_def)
  have h1: "example_evaluation \<noteq> [] \<and> part (last example_evaluation) = 1"
    by (simp add: example_evaluation_def)
  have h2: "2 \<notin> set (map part example_evaluation)"
    by (simp add: example_evaluation_def)
  note t = apply_alterations_cuts [OF d, of example_cs_sub example_cs_add example_pilothole
      WoodScrew_defaults example_placement Anchor_defaults example_placement
      example_store]
  from d t [of 0] h0 t [of 1] h1 t [of 2] h2 show ?thesis
    unfolding Let_def by blast
qed

section \<open>Properties of the script\<close>

lemma export_display_eq:
  "export_display rnd env =
     (if env = ''cmdline'' then
        Inr [Export ''gltf'' ''screw.gltf'' (WoodScrew_c WoodScrew_defaults),
             Export ''gltf'' ''anchor.gltf'' (Anchor_c Anchor_defaults),
             Export ''gltf'' ''together.gltf'' Together_c]
      else if env = ''freecad'' then Inr [Display (ConnectedPlanks_c rnd)]
      else Inr [])"
  by (simp add: export_display_def WoodScrew_new_defaults Anchor_new_defaults bind_err_def)

lemma calls_of_append: "calls_of (xs @ ys) = calls_of xs @ calls_of ys"
  by (induction xs rule: calls_of.induct) simp_all

lemma calls_of_Boundary: "calls_of (map Boundary cs) = cs"
  by (induction cs) simp_all

lemma calls_of_added: "calls_of (map (Catalogue_added f) es) = []"
  by (induction es) simp_all

lemma build_catalogue_fresh:
  assumes "files w tmp = None"
  shows "build_catalogue screws anchors tmp w =
           Inr (w \<lparr> files := (files w) (tmp \<mapsto> catalogue_entries),
                    trace := trace w @ [Catalogue_created tmp] @
                             map (Catalogue_added tmp) catalogue_entries \<rparr>)"
  using assms
  by (simp add: build_catalogue_def screws_def anchors_def catalogue_entries_def
      JSONCatalogue_new_def catalogue_add_def entries_of_def bind_err_def
      WoodScrew_new_eq Anchor_new_eq WoodScrew_defaults_def Anchor_defaults_def)

lemma catalogue_section_fresh:
  assumes "files w tmp = None"
  shows "catalogue_section screws anchors tmp w =
           Inr (w \<lparr> trace := trace w @ [Catalogue_created tmp] @
                             map (Catalogue_added tmp) catalogue_entries @ [Unlinked tmp] \<rparr>)"
proof -
  have "(files w) (tmp := None) = files w"
    using assms by (simp add: fun_upd_idem)
  then show ?thesis
    by (simp add: catalogue_section_def build_catalogue_fresh [OF assms] bind_err_def
        os_unlink_def)
qed

lemma script_fresh:
  assumes "files w tmp = None" and "export_display rnd env = Inr cs"
  shows "script tmp rnd env w =
           Inr (w \<lparr> trace := trace w @ [Catalogue_created tmp] @
                             map (Catalogue_added tmp) catalogue_entries @ [Unlinked tmp] @
                             map Boundary cs \<rparr>)"
  by (simp add: script_def script_with_def catalogue_section_fresh [OF assms(1)] assms(2)
      bind_err_def)

text \<open>
  C2. What the script does at its boundary is decided by \<^verbatim>\<open>env_name\<close> alone. For
  \<^verbatim>\<open>'cmdline'\<close> it makes exactly three calls, the glTF exports of the default wood screw
  to \<^verbatim>\<open>screw.gltf\<close>, of the default anchor to \<^verbatim>\<open>anchor.gltf\<close> and of the assembly
  \<^verbatim>\<open>_Together\<close> to \<^verbatim>\<open>together.gltf\<close>, and displays nothing. For \<^verbatim>\<open>'freecad'\<close> it exports
  nothing and makes one call, the display of a \<^verbatim>\<open>ConnectedPlanks\<close> assembly. For any other
  value it makes no call. In no case does it both export and display. Run on a catalogue
  file name that does not exist yet, the whole script makes these calls and no other, after
  the catalogue section and with the files on disk as they were.
\<close>

theorem export_or_display_by_env:
  "export_display rnd env =
     (if env = ''cmdline'' then
        Inr [Export ''gltf'' ''screw.gltf'' (WoodScrew_c WoodScrew_defaults),
             Export ''gltf'' ''anchor.gltf'' (Anchor_c Anchor_defaults),
             Export ''gltf'' ''together.gltf'' Together_c]
      else if env = ''freecad'' then Inr [Display (ConnectedPlanks_c rnd)]
      else Inr []) \<and>
   (\<exists>cs. export_display rnd env = Inr cs \<and>
      (filter is_export cs = [] \<or> filter is_display cs = []) \<and>
      (env = ''cmdline'' \<and> length (filter is_export cs) = 3 \<and> filter is_display cs = [] \<or>
       env = ''freecad'' \<and> filter is_export cs = [] \<and> length (filter is_display cs) = 1 \<or>
       cs = []) \<and>
      (files w tmp = None \<longrightarrow>
         script tmp rnd env w =
           Inr (w \<lparr> trace := trace w @ [Catalogue_created tmp] @
                             map (Catalogue_added tmp) catalogue_entries @ [Unlinked tmp] @
                             map Boundary cs \<rparr>) \<and>
         (\<exists>w'. script tmp rnd env w = Inr w' \<and> calls w' = calls w @ cs \<and>
               files w' = files w)))"
proof -
  have "\<exists>cs. export_display rnd env = Inr cs"
    by (simp add: export_display_eq)
  then obtain cs where cs: "export_display rnd env = Inr cs" ..
  have k1: "filter is_export cs = [] \<or> filter is_display cs = []"
    using cs by (auto simp add: export_display_eq is_export_def is_display_def split: if_splits)
  have k2: "env = ''cmdline'' \<and> length (filter is_export cs) = 3 \<and> filter is_display cs = [] \<or>
       env = ''freecad'' \<and> filter is_export cs = [] \<and> length (filter is_display cs) = 1 \<or>
       cs = []"
    using cs by (auto simp add: export_display_eq is_export_def is_display_def split: if_splits)
  have run: "files w tmp = None \<longrightarrow>
         script tmp rnd env w =
           Inr (w \<lparr> trace := trace w @ [Catalogue_created tmp] @
                             map (Catalogue_added tmp) catalogue_entries @ [Unlinked tmp] @
                             map Boundary cs \<rparr>) \<and>
         (\<exists>w'. script tmp rnd env w = Inr w' \<and> calls w' = calls w @ cs \<and>
               files w' = files w)"
  proof
    assume fresh: "files w tmp = None"
    from script_fresh [OF fresh cs] show
      "script tmp rnd env w =
           Inr (w \<lparr> trace := trace w @ [Catalogue_created tmp] @
                             map (Catalogue_added tmp) catalogue_entries @ [Unlinked tmp] @
                             map Boundary cs \<rparr>) \<and>
         (\<exists>w'. script tmp rnd env w = Inr w' \<and> calls w' = calls w @ cs \<and>
               files w' = files w)"
      by (simp add: calls_def calls_of_append calls_of_Boundary calls_of_added)
  qed
  have "\<exists>cs. export_display rnd env = Inr cs \<and>
      (filter is_export cs = [] \<or> filter is_display cs = []) \<and>
      (env = ''cmdline'' \<and> length (filter is_export cs) = 3 \<and> filter is_display cs = [] \<or>
       env = ''freecad'' \<and> filter is_export cs = [] \<and> length (filter is_display cs) = 1 \<or>
       cs = []) \<and>
      (files w tmp = None \<longrightarrow>
         script tmp rnd env w =
           Inr (w \<lparr> trace := trace w @ [Catalogue_created tmp] @
                             map (Catalogue_added tmp) catalogue_entries @ [Unlinked tmp] @
                             map Boundary cs \<rparr>) \<and>
         (\<exists>w'. script tmp rnd env w = Inr w' \<and> calls w' = calls w @ cs \<and>
               files w' = files w))"
    by (rule exI [of _ cs]) (rule conjI [OF cs conjI [OF k1 conjI [OF k2 run]]])
  with export_display_eq [of rnd env] show ?thesis
    by (rule conjI)
qed

theorem export_or_display_by_env_witness:
  "files \<lparr> files = Map.empty, trace = [] \<rparr> ''/tmp/tmpcatalogue'' = None \<and>
   (\<exists>w'. script ''/tmp/tmpcatalogue'' example_placement ''cmdline''
            \<lparr> files = Map.empty, trace = [] \<rparr> = Inr w' \<and>
          calls w' = [Export ''gltf'' ''screw.gltf'' (WoodScrew_c WoodScrew_defaults),
                      Export ''gltf'' ''anchor.gltf'' (Anchor_c Anchor_defaults),
                      Export ''gltf'' ''together.gltf'' Together_c] \<and>
          files w' = Map.empty) \<and>
   (\<exists>w'. script ''/tmp/tmpcatalogue'' example_placement ''freecad''
            \<lparr> files = Map.empty, trace = [] \<rparr> = Inr w' \<and>
          calls w' = [Display (ConnectedPlanks_c example_placement)] \<and>
          files w' = Map.empty)"
proof -
  have h: "files \<lparr> files = Map.empty, trace = [] \<rparr> ''/tmp/tmpcatalogue'' = None"
    by simp
  have c: "\<exists>w'. script ''/tmp/tmpcatalogue'' example_placement ''cmdline''
            \<lparr> files = Map.empty, trace = [] \<rparr> = Inr w' \<and>
          calls w' = [Export ''gltf'' ''screw.gltf'' (WoodScrew_c WoodScrew_defaults),
                      Export ''gltf'' ''anchor.gltf'' (Anchor_c Anchor_defaults),
                      Export ''gltf'' ''together.gltf'' Together_c] \<and>
          files w' = Map.empty"
    using export_or_display_by_env
      [of example_placement "''cmdline''" "\<lparr> files = Map.empty, trace = [] \<rparr>"
          "''/tmp/tmpcatalogue''"] h
    by (auto simp add: calls_def)
  have f: "\<exists>w'. script ''/tmp/tmpcatalogue'' example_placement ''freecad''
            \<lparr> files = Map.empty, trace = [] \<rparr> = Inr w' \<and>
          calls w' = [Display (ConnectedPlanks_c example_placement)] \<and>
          files w' = Map.empty"
    using export_or_display_by_env
      [of example_placement "''freecad''" "\<lparr> files = Map.empty, trace = [] \<rparr>"
          "''/tmp/tmpcatalogue''"] h
    by (auto simp add: calls_def)
  from h c f show ?thesis by (intro conjI)
qed

text \<open>
  C4. The catalogue is transient. \<^verbatim>\<open>tempfile.mktemp()\<close> returns the name of a file that
  does not exist. Run from there, the script does this and nothing else, in this order: it
  creates that one file, adds exactly four entries to it, with the ids \<^verbatim>\<open>screw_30\<close>,
  \<^verbatim>\<open>screw_50\<close>, \<^verbatim>\<open>anchor_10\<close> and \<^verbatim>\<open>anchor_15\<close>, removes the file, and only then makes the
  calls of the export / display section. After the last \<^verbatim>\<open>catalogue.add\<close> the file holds
  the four entries; after the script the files on disk are those there were before it,
  the catalogue file not among them.
\<close>

theorem catalogue_is_transient:
  assumes "files w tmp = None"
  shows "(\<exists>cs. export_display rnd env = Inr cs \<and>
            script tmp rnd env w =
              Inr (w \<lparr> trace := trace w @ [Catalogue_created tmp] @
                                map (Catalogue_added tmp) catalogue_entries @ [Unlinked tmp] @
                                map Boundary cs \<rparr>)) \<and>
         map entry_id catalogue_entries =
           [''screw_30'', ''screw_50'', ''anchor_10'', ''anchor_15''] \<and>
         build_catalogue screws anchors tmp w =
           Inr (w \<lparr> files := (files w) (tmp \<mapsto> catalogue_entries),
                    trace := trace w @ [Catalogue_created tmp] @
                             map (Catalogue_added tmp) catalogue_entries \<rparr>) \<and>
         catalogue_section screws anchors tmp w =
           Inr (w \<lparr> trace := trace w @ [Catalogue_created tmp] @
                             map (Catalogue_added tmp) catalogue_entries @ [Unlinked tmp] \<rparr>) \<and>
         (\<exists>w'. script tmp rnd env w = Inr w' \<and> files w' = files w \<and> files w' tmp = None)"
proof -
  have ids: "map entry_id catalogue_entries =
      [''screw_30'', ''screw_50'', ''anchor_10'', ''anchor_15'']"
    by (simp add: catalogue_entries_def screws_def anchors_def)
  have "\<exists>cs. export_display rnd env = Inr cs"
    by (simp add: export_display_eq)
  then obtain cs where cs: "export_display rnd env = Inr cs" ..
  note run = script_fresh [OF assms cs]
  from cs run have first: "\<exists>cs. export_display rnd env = Inr cs \<and>
            script tmp rnd env w =
              Inr (w \<lparr> trace := trace w @ [Catalogue_created tmp] @
                                map (Catalogue_added tmp) catalogue_entries @ [Unlinked tmp] @
                                map Boundary cs \<rparr>)"
    by (intro exI [of _ cs] conjI)
  from run assms
  have last: "\<exists>w'. script tmp rnd env w = Inr w' \<and> files w' = files w \<and> files w' tmp = None"
    by simp
  from first ids build_catalogue_fresh [OF assms] catalogue_section_fresh [OF assms] last
  show ?thesis by (intro conjI)
qed

theorem catalogue_is_transient_witness:
  "files \<lparr> files = Map.empty, trace = [] \<rparr> ''/tmp/tmpcatalogue'' = None \<and>
   script ''/tmp/tmpcatalogue'' example_placement ''freecad'' \<lparr> files = Map.empty, trace = [] \<rparr> =
     Inr \<lparr> files = Map.empty,
           trace = [Catalogue_created ''/tmp/tmpcatalogue''] @
                   map (Catalogue_added ''/tmp/tmpcatalogue'') catalogue_entries @
                   [Unlinked ''/tmp/tmpcatalogue'',
                    Boundary (Display (ConnectedPlanks_c example_placement))] \<rparr> \<and>
   length catalogue_entries = 4"
proof -
  have h: "files \<lparr> files = Map.empty, trace = [] \<rparr> ''/tmp/tmpcatalogue'' = None"
    by simp
  have "map entry_id catalogue_entries =
      [''screw_30'', ''screw_50'', ''anchor_10'', ''anchor_15'']"
    using catalogue_is_transient [OF h] by blast
  then have "length (map entry_id catalogue_entries) = 4"
    by simp
  then have four: "length catalogue_entries = 4"
    by simp
  have "script ''/tmp/tmpcatalogue'' example_placement ''freecad''
          \<lparr> files = Map.empty, trace = [] \<rparr> =
     Inr \<lparr> files = Map.empty,
           trace = [Catalogue_created ''/tmp/tmpcatalogue''] @
                   map (Catalogue_added ''/tmp/tmpcatalogue'') catalogue_entries @
                   [Unlinked ''/tmp/tmpcatalogue'',
                    Boundary (Display (ConnectedPlanks_c example_placement))] \<rparr>"
    using catalogue_is_transient [OF h, of example_placement "''freecad''"]
    by (auto simp add: export_display_eq)
  with h four show ?thesis by (intro conjI)
qed

section \<open>Properties of the classes\<close>

text \<open>
  C7, as the claim states it, fails: the assembly \<^verbatim>\<open>_Together\<close> declares no parameter and
  defines no \<^verbatim>\<open>make\<close>, and neither \<^verbatim>\<open>EasyInstallFastener\<close> nor \<^verbatim>\<open>ConnectedPlanks\<close> defines
  a \<^verbatim>\<open>make\<close> of its own.
\<close>

theorem assemblies_define_no_make:
  "\<not> parameter_bag_with_make Together_decl \<and>
   ''make'' \<notin> set (methods Together_decl) \<and>
   \<not> parameter_bag_with_make EasyInstallFastener_decl \<and>
   ''make'' \<notin> set (methods EasyInstallFastener_decl) \<and>
   \<not> parameter_bag_with_make ConnectedPlanks_decl \<and>
   ''make'' \<notin> set (methods ConnectedPlanks_decl)"
  by (simp add: parameter_bag_with_make_def Together_decl_def ConnectedPlanks_decl_def
      EasyInstallFastener_decl_def)

text \<open>
  C7, amended. The three parts \<^verbatim>\<open>WoodScrew\<close>, \<^verbatim>\<open>Anchor\<close> and \<^verbatim>\<open>WoodPanel\<close> are each a
  declarative parameter bag with a \<^verbatim>\<open>make()\<close> method of its own. The two assemblies
  \<^verbatim>\<open>_Together\<close> and \<^verbatim>\<open>ConnectedPlanks\<close> declare no parameter and define
  \<^verbatim>\<open>make_components()\<close> and \<^verbatim>\<open>make_constraints()\<close>. \<^verbatim>\<open>EasyInstallFastener\<close> declares no
  parameter and defines no method: it names an evaluator and nests a \<^verbatim>\<open>Selector\<close>, with
  \<^verbatim>\<open>get_components()\<close> and \<^verbatim>\<open>get_constraints()\<close>, and an \<^verbatim>\<open>Applicator\<close>, with
  \<^verbatim>\<open>apply_alterations()\<close>.
\<close>

theorem make_of_each_model:
  "parameter_bag_with_make WoodScrew_decl \<and>
   parameter_bag_with_make Anchor_decl \<and>
   parameter_bag_with_make WoodPanel_decl \<and>
   parameters Together_decl = [] \<and>
   methods Together_decl = [''make_components'', ''make_constraints''] \<and>
   parameters ConnectedPlanks_decl = [] \<and>
   methods ConnectedPlanks_decl = [''make_components'', ''make_constraints''] \<and>
   parameters EasyInstallFastener_decl = [] \<and>
   methods EasyInstallFastener_decl = [] \<and>
   attributes EasyInstallFastener_decl = [''Evaluator''] \<and>
   nested EasyInstallFastener_decl = [''Selector'', ''Applicator''] \<and>
   methods Selector_decl = [''get_components'', ''get_constraints''] \<and>
   methods Applicator_decl = [''apply_alterations'']"
  by (simp add: parameter_bag_with_make_def WoodScrew_decl_def Anchor_decl_def WoodPanel_decl_def
      Together_decl_def ConnectedPlanks_decl_def EasyInstallFastener_decl_def Selector_decl_def
      Applicator_decl_def)

end
